theory Spec2Isabelle
  imports Complex_Main "HOL-Library.Char_ord" "HOL-Library.List_Lexorder" "HOL-Library.Sublist"
begin

section \<open>Text primitives of the Python runtime (ASCII)\<close>

text \<open>
  Queries are Python \<open>str\<close> values. The model covers ASCII text: on ASCII the
  predicates below are \<open>str.isspace\<close>, the regular-expression classes \<open>\<bsol>s\<close> and
  \<open>\<bsol>w\<close>, and \<open>str.lower\<close>/\<open>str.upper\<close>. Characters above 127 are treated as
  uncased, non-word, non-space characters.
\<close>

definition is_space :: "char \<Rightarrow> bool" where
  "is_space c = (let n = (of_char c :: nat) in (9 \<le> n \<and> n \<le> 13) \<or> (28 \<le> n \<and> n \<le> 32))"

definition is_upper :: "char \<Rightarrow> bool" where
  "is_upper c = (let n = (of_char c :: nat) in 65 \<le> n \<and> n \<le> 90)"

definition is_lower :: "char \<Rightarrow> bool" where
  "is_lower c = (let n = (of_char c :: nat) in 97 \<le> n \<and> n \<le> 122)"

definition is_digit :: "char \<Rightarrow> bool" where
  "is_digit c = (let n = (of_char c :: nat) in 48 \<le> n \<and> n \<le> 57)"

definition is_cased :: "char \<Rightarrow> bool" where
  "is_cased c = (is_upper c \<or> is_lower c)"

definition is_word :: "char \<Rightarrow> bool" where
  "is_word c = (is_upper c \<or> is_lower c \<or> is_digit c \<or> c = CHR ''_'')"

definition lower_c :: "char \<Rightarrow> char" where
  "lower_c c = (if is_upper c then char_of (of_char c + (32::nat)) else c)"

definition upper_c :: "char \<Rightarrow> char" where
  "upper_c c = (if is_lower c then char_of (of_char c - (32::nat)) else c)"

definition lower :: "string \<Rightarrow> string" where
  "lower s = map lower_c s"

definition strip :: "string \<Rightarrow> string" where
  "strip s = rev (dropWhile is_space (rev (dropWhile is_space s)))"

text \<open>\<open>str.title\<close>: a character after a cased one is lower-cased, any other is upper-cased.\<close>

fun title_from :: "bool \<Rightarrow> string \<Rightarrow> string" where
  "title_from previous_is_cased [] = []"
| "title_from previous_is_cased (c # cs) =
     (if previous_is_cased then lower_c c else upper_c c) # title_from (is_cased c) cs"

definition title :: "string \<Rightarrow> string" where
  "title s = title_from False s"

text \<open>\<open>str.split()\<close> with no argument: the maximal runs of non-space characters.\<close>

fun split_from :: "string \<Rightarrow> string \<Rightarrow> string list" where
  "split_from cur [] = (if cur = [] then [] else [cur])"
| "split_from cur (c # cs) =
     (if is_space c then (if cur = [] then split_from [] cs else cur # split_from [] cs)
      else split_from (cur @ [c]) cs)"

definition split :: "string \<Rightarrow> string list" where
  "split s = split_from [] s"

text \<open>\<open>sep.join(xs)\<close>.\<close>

fun join :: "string \<Rightarrow> string list \<Rightarrow> string" where
  "join sep [] = []"
| "join sep [x] = x"
| "join sep (x # y # ys) = x @ sep @ join sep (y # ys)"

text \<open>\<open>needle in haystack\<close> on strings.\<close>

fun contains :: "string \<Rightarrow> string \<Rightarrow> bool" where
  "contains needle [] = (needle = [])"
| "contains needle (c # cs) = (prefix needle (c # cs) \<or> contains needle cs)"

section \<open>The regular expressions of \<open>extract_location\<close>\<close>

text \<open>
  The patterns of \<open>main.py\<close> are sequences of: a literal, a greedy \<open>*\<close> or \<open>+\<close> over a
  character class, the captured group \<open>([...]+)\<close>, an alternation of literals, and the
  word boundary \<open>\<bsol>b\<close>. \<open>rmatch\<close> is the backtracking matcher of Python's \<open>re\<close> on
  such sequences: a greedy repetition tries the longest run first and gives characters
  back one at a time, an alternation tries its branches in order. The matcher carries
  the character before the current position (for \<open>\<bsol>b\<close>) and returns group 1 with the
  text left after the match.
\<close>

datatype atom =
    Lit string
  | Star "char \<Rightarrow> bool"
  | Plus "char \<Rightarrow> bool"
  | CapPlus "char \<Rightarrow> bool"
  | Alt "string list"
  | WordB

type_synonym regex = "atom list"

fun first_some :: "'a option list \<Rightarrow> 'a option" where
  "first_some [] = None"
| "first_some (x # xs) = (case x of Some r \<Rightarrow> Some r | None \<Rightarrow> first_some xs)"

definition adv :: "char option \<Rightarrow> string \<Rightarrow> nat \<Rightarrow> char option" where
  "adv prev s k = (case rev (take k s) of [] \<Rightarrow> prev | c # _ \<Rightarrow> Some c)"

definition run :: "(char \<Rightarrow> bool) \<Rightarrow> string \<Rightarrow> nat" where
  "run p s = length (takeWhile p s)"

definition at_boundary :: "char option \<Rightarrow> string \<Rightarrow> bool" where
  "at_boundary prev s =
     ((case prev of None \<Rightarrow> False | Some c \<Rightarrow> is_word c) \<noteq>
      (case s of [] \<Rightarrow> False | c # _ \<Rightarrow> is_word c))"

fun rmatch :: "regex \<Rightarrow> char option \<Rightarrow> string \<Rightarrow> string option \<Rightarrow> (string option \<times> string) option" where
  "rmatch [] prev s cap = Some (cap, s)"
| "rmatch (Lit l # r) prev s cap =
     (if prefix l s then rmatch r (adv prev s (length l)) (drop (length l) s) cap else None)"
| "rmatch (Star p # r) prev s cap =
     first_some (map (\<lambda>k. rmatch r (adv prev s k) (drop k s) cap) (rev [0..<Suc (run p s)]))"
| "rmatch (Plus p # r) prev s cap =
     first_some (map (\<lambda>k. rmatch r (adv prev s k) (drop k s) cap) (rev [1..<Suc (run p s)]))"
| "rmatch (CapPlus p # r) prev s cap =
     first_some (map (\<lambda>k. rmatch r (adv prev s k) (drop k s) (Some (take k s)))
                     (rev [1..<Suc (run p s)]))"
| "rmatch (Alt ws # r) prev s cap =
     first_some (map (\<lambda>w. if prefix w s
                           then rmatch r (adv prev s (length w)) (drop (length w) s) cap
                           else None) ws)"
| "rmatch (WordB # r) prev s cap = (if at_boundary prev s then rmatch r prev s cap else None)"

text \<open>\<open>re.search\<close>: the match at the leftmost start position; the result is group 1.\<close>

fun re_search_from :: "regex \<Rightarrow> char option \<Rightarrow> string \<Rightarrow> string option option" where
  "re_search_from re prev [] = map_option fst (rmatch re prev [] None)"
| "re_search_from re prev (c # cs) =
     (case rmatch re prev (c # cs) None of
        Some (cap, rest) \<Rightarrow> Some cap
      | None \<Rightarrow> re_search_from re (Some c) cs)"

definition re_search :: "regex \<Rightarrow> string \<Rightarrow> string option option" where
  "re_search re s = re_search_from re None s"

text \<open>
  \<open>re.sub(pattern, "", s)\<close>: scanning from the left, every non-overlapping match is
  deleted; where the pattern does not match (or matches the empty string), one
  character is copied.
\<close>

function re_sub_from :: "regex \<Rightarrow> char option \<Rightarrow> string \<Rightarrow> string" where
  "re_sub_from re prev [] = []"
| "re_sub_from re prev (c # cs) =
     (case rmatch re prev (c # cs) None of
        Some (cap, rest) \<Rightarrow>
          (if length rest < length (c # cs)
           then re_sub_from re (adv prev (c # cs) (length (c # cs) - length rest)) rest
           else c # re_sub_from re (Some c) cs)
      | None \<Rightarrow> c # re_sub_from re (Some c) cs)"
  by pat_completeness auto
termination
  by (relation "measure (\<lambda>(re, prev, s). length s)") auto

definition re_sub :: "regex \<Rightarrow> string \<Rightarrow> string" where
  "re_sub re s = re_sub_from re None s"

text \<open>The class \<open>[\<bsol>w\<bsol>s,.'-]\<close> of the captured group, and \<open>.\<close> (any character but a newline).\<close>

definition loc_char :: "char \<Rightarrow> bool" where
  "loc_char c = (is_word c \<or> is_space c \<or> c = CHR '','' \<or> c = CHR ''.'' \<or> c = CHR 0x27 \<or> c = CHR ''-'')"

definition dot :: "char \<Rightarrow> bool" where
  "dot c = (c \<noteq> CHR 0x0A)"

definition patterns :: "regex list" where
  "patterns =
    [[Lit ''weather in '', CapPlus loc_char],
     [Lit ''weather at '', CapPlus loc_char],
     [Lit ''temperature in '', CapPlus loc_char],
     [Lit ''forecast for '', CapPlus loc_char],
     [Lit ''what'', Star dot, Lit ''weather in '', CapPlus loc_char],
     [Lit ''how'', Star dot, Lit ''weather in '', CapPlus loc_char],
     [Lit ''current weather in '', CapPlus loc_char],
     [Lit (''what'' @ [CHR 0x27] @ ''s the weather in ''), CapPlus loc_char],
     [Lit ''weather '', CapPlus loc_char],
     [Lit ''temperature '', CapPlus loc_char]]"

definition rev_pattern :: regex where
  "rev_pattern = [CapPlus loc_char, Plus is_space, Alt [''weather'', ''temperature'', ''forecast'']]"

definition stop_phrase :: regex where
  "stop_phrase = [WordB, Alt [''the'', ''at'', ''in'', ''for'', ''near'', ''th''], WordB]"

definition stop_fallback :: regex where
  "stop_fallback =
     [WordB, Alt [''the'', ''at'', ''in'', ''for'', ''near'', ''th'', ''is'', ''present''], WordB]"

section \<open>Location extraction (\<open>main.py\<close>)\<close>

text \<open>
  The body shared by the pattern loop and the reverse pattern: \<open>loc = m.group(1).strip()\<close>,
  the stop-words are deleted, the result is stripped again, and it is returned
  title-cased when longer than two characters.
\<close>

definition phrase_candidate :: "string \<Rightarrow> string option" where
  "phrase_candidate g =
     (let loc = strip g;
          loc = strip (re_sub stop_phrase loc)
      in if length loc > 2 then Some (title loc) else None)"

fun try_patterns :: "regex list \<Rightarrow> string \<Rightarrow> string option" where
  "try_patterns [] q = None"
| "try_patterns (p # ps) q =
     (case re_search p q of
        Some (Some g) \<Rightarrow>
          (case phrase_candidate g of Some r \<Rightarrow> Some r | None \<Rightarrow> try_patterns ps q)
      | _ \<Rightarrow> try_patterns ps q)"

definition try_reverse :: "string \<Rightarrow> string option" where
  "try_reverse q =
     (case re_search rev_pattern q of
        Some (Some g) \<Rightarrow> phrase_candidate g
      | _ \<Rightarrow> None)"

definition fallback_candidate :: "string list \<Rightarrow> nat \<Rightarrow> string option" where
  "fallback_candidate words sz =
     (let candidate = join '' '' (drop (length words - sz) words);
          candidate = strip (re_sub stop_fallback candidate)
      in if length candidate > 2 then Some (title candidate) else None)"

fun try_sizes :: "nat list \<Rightarrow> string list \<Rightarrow> string option" where
  "try_sizes [] words = None"
| "try_sizes (sz # sizes) words =
     (if length words \<ge> sz
      then (case fallback_candidate words sz of
              Some r \<Rightarrow> Some r
            | None \<Rightarrow> try_sizes sizes words)
      else try_sizes sizes words)"

definition extract_location :: "string \<Rightarrow> string option" where
  "extract_location query =
     (if query = [] then None
      else let q = lower (strip query) in
        (case try_patterns patterns q of
           Some r \<Rightarrow> Some r
         | None \<Rightarrow>
            (case try_reverse q of
               Some r \<Rightarrow> Some r
             | None \<Rightarrow>
                (let words = split q in
                 if length words \<ge> 1 then try_sizes [3, 2, 1] words else None))))"

definition is_weather_followup :: "string \<Rightarrow> bool" where
  "is_weather_followup query =
     (if query = [] then False
      else let q = lower query;
               weather_terms = [''weather'', ''temperature'', ''forecast'', ''rain'', ''snow'',
                                ''wind'', ''sunrise'', ''sunset''];
               followup_terms = [''tomorrow'', ''day after'', ''next'', ''again'', ''same place'',
                                 ''how about'', ''what about'', ''later'', ''today'']
           in (\<exists>w \<in> set weather_terms. contains w q) \<or> (\<exists>f \<in> set followup_terms. contains f q))"

text \<open>
  The resolution step of \<open>stream\<close>: the extracted location, or the chat's persisted
  \<open>last_location\<close> when nothing (or an empty string) was extracted and the message is
  a follow-up.
\<close>

definition resolve_location :: "string \<Rightarrow> string option \<Rightarrow> string option" where
  "resolve_location message chat_last_location =
     (let location = extract_location message in
      if (location = None \<or> location = Some []) \<and> is_weather_followup message
      then chat_last_location else location)"

section \<open>The weather engine (\<open>weather.py\<close>)\<close>

text \<open>
  Timestamps (\<open>time.time()\<close>) and the provider's numbers are modelled as exact reals.
  A provider answer is typed after the fields the code reads: a missing key is \<open>None\<close>.
  \<open>RequestFailed\<close> is \<open>requests.get\<close> raising; a body \<open>None\<close> is \<open>r.json()\<close> raising or
  a payload of another shape, on which the code inside the \<open>try\<close> block raises.
\<close>

datatype 'a http = RequestFailed | Response nat "'a option"

text \<open>
  The value the geocoder's answer holds under \<open>lat\<close> or \<open>lon\<close>, as \<open>r.json()\<close> decodes it.
  The code never inspects it; the first thing done with it is the format \<open>.4f\<close> of the
  cache keys. \<open>Formats x\<close> is a number that format accepts (a float, or an integer within
  the range of floats); \<open>Unformattable\<close> is any other value (a string, a list, a
  dictionary, an integer beyond the range of floats), on which the format raises
  \<open>ValueError\<close>, \<open>TypeError\<close> or \<open>OverflowError\<close>.
\<close>

datatype coordinate = Formats real | Unformattable

text \<open>What a call gives its caller: an exception that leaves the function, or a value.\<close>

datatype 'a result = Raised | Returned 'a

record geo =
  geo_name :: "string option"
  geo_lat :: "coordinate option"
  geo_lon :: "coordinate option"
  geo_country :: "string option"
  geo_state :: "string option"

record main_block =
  temp :: "real option"
  feels_like :: "real option"
  humidity :: "real option"
  pressure :: "real option"

text \<open>
  The \<open>weather\<close> key holds a list of entries, each with an optional description; the
  \<open>wind\<close> and \<open>clouds\<close> keys hold a dictionary with an optional \<open>speed\<close> or \<open>all\<close>.
\<close>

record current_payload =
  cp_name :: "string option"
  cp_weather :: "string option list option"
  cp_main :: "main_block option"
  cp_wind :: "real option option"
  cp_clouds :: "real option option"

record current =
  raw :: current_payload
  cur_name :: "string option"
  description :: "string option"
  temp_c :: "real option"
  feels_like_c :: "real option"
  cur_humidity :: "real option"
  cur_pressure :: "real option"
  wind_speed_m_s :: "real option"
  clouds_pct :: "real option"

record forecast_item =
  dt :: "real option"
  it_weather :: "string option list option"
  it_main :: "main_block option"
  it_wind :: "real option option"

record daily =
  date :: string
  temp_min_c :: "real option"
  temp_max_c :: "real option"
  temp_avg_c :: "real option"
  common_description :: "string option option"
  wind_avg_m_s :: "real option"
  humidity_avg :: "real option"

record aqi_element =
  el_main :: "real option option"
  el_components :: "(string \<times> real) list option"

record aqi =
  aqi_index :: "real option"
  components :: "(string \<times> real) list"

datatype request =
    GeoRequest string
  | CurrentRequest real real
  | ForecastRequest real real
  | AqiRequest real real

text \<open>
  The environment of the module: the credential \<open>OWM_KEY\<close>, the provider's answers, and
  the library functions the code calls: the \<open>.4f\<close> float format of the cache keys, \<open>str\<close> of an
  integer and of a number, \<open>time.strftime("%Y-%m-%d", time.gmtime(ts))\<close> (\<open>None\<close> when it raises), and the
  iteration order of \<open>set(xs)\<close> (the distinct elements of \<open>xs\<close> in hash order).
\<close>

record env =
  owm_key :: "string option"
  geo_api :: "string \<Rightarrow> geo list http"
  current_api :: "real \<Rightarrow> real \<Rightarrow> current_payload http"
  forecast_api :: "real \<Rightarrow> real \<Rightarrow> forecast_item list option http"
  aqi_api :: "real \<Rightarrow> real \<Rightarrow> aqi_element list option http"
  fmt4 :: "real \<Rightarrow> string"
  str_int :: "int \<Rightarrow> string"
  str_num :: "real \<Rightarrow> string"
  day_str :: "real option \<Rightarrow> string option"
  set_iter :: "string option list \<Rightarrow> string option list"

text \<open>
  The module state: the four cache dictionaries, each from a key to the pair
  \<open>(value, fetched_at)\<close>; the clock, as the sequence of readings \<open>time.time()\<close> returns
  and the number of readings taken; and the log of the requests sent to the provider.
\<close>

record world =
  geo_cache :: "string \<rightharpoonup> (geo \<times> real)"
  current_cache :: "string \<rightharpoonup> (current \<times> real)"
  forecast_cache :: "string \<rightharpoonup> (daily list \<times> real)"
  aqi_cache :: "string \<rightharpoonup> (aqi \<times> real)"
  clock :: "nat \<Rightarrow> real"
  ticks :: nat
  sent :: "request list"

definition GEO_TTL :: real where "GEO_TTL = 24 * 3600"
definition CURRENT_TTL :: real where "CURRENT_TTL = 5 * 60"
definition FORECAST_TTL :: real where "FORECAST_TTL = 10 * 60"
definition AQI_TTL :: real where "AQI_TTL = 60 * 60"

definition now_ts :: "world \<Rightarrow> real \<times> world" where
  "now_ts w = (clock w (ticks w), w\<lparr>ticks := Suc (ticks w)\<rparr>)"

definition send :: "request \<Rightarrow> world \<Rightarrow> world" where
  "send r w = w\<lparr>sent := sent w @ [r]\<rparr>"

text \<open>\<open>not OWM_KEY\<close>: the variable is unset or empty.\<close>

definition no_key :: "env \<Rightarrow> bool" where
  "no_key e = (owm_key e = None \<or> owm_key e = Some [])"

text \<open>
  \<open>cached and _now_ts() - cached[1] < TTL\<close>: the clock is read only when the key has an
  entry; the entry is a pair, so it is always truthy.
\<close>

definition fresh :: "real \<Rightarrow> ('v \<times> real) option \<Rightarrow> world \<Rightarrow> 'v option \<times> world" where
  "fresh ttl cached w =
     (case cached of
        None \<Rightarrow> (None, w)
      | Some (v, fetched_at) \<Rightarrow>
          (let (now, w') = now_ts w in
           (if now - fetched_at < ttl then Some v else None, w')))"

definition geocode_location :: "env \<Rightarrow> string \<Rightarrow> world \<Rightarrow> geo option \<times> world" where
  "geocode_location e location w =
     (if no_key e then (None, w)
      else
        let key = lower (strip location);
            (hit, w1) = fresh GEO_TTL (geo_cache w key) w
        in case hit of
             Some v \<Rightarrow> (Some v, w1)
           | None \<Rightarrow>
              (let w2 = send (GeoRequest location) w1 in
               case geo_api e location of
                 RequestFailed \<Rightarrow> (None, w2)
               | Response status body \<Rightarrow>
                   if status \<noteq> 200 then (None, w2)
                   else (case body of
                           None \<Rightarrow> (None, w2)
                         | Some [] \<Rightarrow> (None, w2)
                         | Some (top_hit # _) \<Rightarrow>
                             (let result = \<lparr>geo_name = geo_name top_hit, geo_lat = geo_lat top_hit,
                                            geo_lon = geo_lon top_hit, geo_country = geo_country top_hit,
                                            geo_state = geo_state top_hit\<rparr>;
                                  (now, w3) = now_ts w2
                              in (Some result,
                                  w3\<lparr>geo_cache := (geo_cache w3)(key \<mapsto> (result, now))\<rparr>)))))"

text \<open>
  \<open>d.get("weather", [{}])[0].get("description")\<close>: a missing key gives the default's
  empty entry, an empty list raises \<open>IndexError\<close> (the outer \<open>None\<close>).
\<close>

definition first_description :: "string option list option \<Rightarrow> string option option" where
  "first_description weather =
     (case weather of
        None \<Rightarrow> Some None
      | Some [] \<Rightarrow> None
      | Some (d # _) \<Rightarrow> Some d)"

text \<open>\<open>d.get("main", {}).get(field)\<close>.\<close>

definition main_get :: "(main_block \<Rightarrow> real option) \<Rightarrow> main_block option \<Rightarrow> real option" where
  "main_get field m = (case m of None \<Rightarrow> None | Some b \<Rightarrow> field b)"

definition sub_get :: "real option option \<Rightarrow> real option" where
  "sub_get d = (case d of None \<Rightarrow> None | Some v \<Rightarrow> v)"

definition cur_key :: "env \<Rightarrow> real \<Rightarrow> real \<Rightarrow> string" where
  "cur_key e la lo = ''cur:'' @ fmt4 e la @ '','' @ fmt4 e lo"

definition fetch_current_weather_by_coord ::
    "env \<Rightarrow> real \<Rightarrow> real \<Rightarrow> world \<Rightarrow> current option \<times> world" where
  "fetch_current_weather_by_coord e la lo w =
     (if no_key e then (None, w)
      else
        let key = cur_key e la lo;
            (hit, w1) = fresh CURRENT_TTL (current_cache w key) w
        in case hit of
             Some v \<Rightarrow> (Some v, w1)
           | None \<Rightarrow>
              (let w2 = send (CurrentRequest la lo) w1 in
               case current_api e la lo of
                 RequestFailed \<Rightarrow> (None, w2)
               | Response status body \<Rightarrow>
                   if status \<noteq> 200 then (None, w2)
                   else (case body of
                           None \<Rightarrow> (None, w2)
                         | Some d \<Rightarrow>
                            (case first_description (cp_weather d) of
                               None \<Rightarrow> (None, w2)
                             | Some descr \<Rightarrow>
                                (let res = \<lparr>raw = d, cur_name = cp_name d, description = descr,
                                             temp_c = main_get temp (cp_main d),
                                             feels_like_c = main_get feels_like (cp_main d),
                                             cur_humidity = main_get humidity (cp_main d),
                                             cur_pressure = main_get pressure (cp_main d),
                                             wind_speed_m_s = sub_get (cp_wind d),
                                             clouds_pct = sub_get (cp_clouds d)\<rparr>;
                                     (now, w3) = now_ts w2
                                 in (Some res,
                                     w3\<lparr>current_cache := (current_cache w3)(key \<mapsto> (res, now))\<rparr>))))))"

subsection \<open>Forecast aggregation\<close>

record slot =
  temps :: "real option list"
  desc :: "string option list"
  winds :: "real option list"
  hum :: "real option list"

definition empty_slot :: slot where
  "empty_slot = \<lparr>temps = [], desc = [], winds = [], hum = []\<rparr>"

text \<open>
  The dictionary \<open>daily\<close> is kept as the list of its items in insertion order.
  \<open>add_sample\<close> is one round of the first loop: \<open>setdefault\<close>, then the four appends.
\<close>

definition add_sample ::
    "(string \<times> slot) list \<Rightarrow> string \<Rightarrow> forecast_item \<Rightarrow> string option \<Rightarrow> (string \<times> slot) list" where
  "add_sample daily day it descr =
     (let daily' = (if day \<in> set (map fst daily) then daily else daily @ [(day, empty_slot)])
      in map (\<lambda>(k, v). if k = day
                         then (k, \<lparr>temps = temps v @ [main_get temp (it_main it)],
                                   desc = desc v @ [descr],
                                   winds = winds v @ [sub_get (it_wind it)],
                                   hum = hum v @ [main_get humidity (it_main it)]\<rparr>)
                         else (k, v)) daily')"

fun group_by_day ::
    "env \<Rightarrow> forecast_item list \<Rightarrow> (string \<times> slot) list \<Rightarrow> (string \<times> slot) list option" where
  "group_by_day e [] daily = Some daily"
| "group_by_day e (it # items) daily =
     (case day_str e (dt it) of
        None \<Rightarrow> None
      | Some day \<Rightarrow>
         (case first_description (it_weather it) of
            None \<Rightarrow> None
          | Some descr \<Rightarrow> group_by_day e items (add_sample daily day it descr)))"

text \<open>\<open>[t for t in xs if t is not None]\<close>.\<close>

definition not_none :: "'a option list \<Rightarrow> 'a list" where
  "not_none xs = concat (map (\<lambda>x. case x of None \<Rightarrow> [] | Some v \<Rightarrow> [v]) xs)"

text \<open>
  \<open>min\<close>, \<open>max\<close> and \<open>max(..., key=...)\<close> walk the sequence and keep the best element
  seen so far, replacing it only by a strictly better one.
\<close>

fun min_from :: "real \<Rightarrow> real list \<Rightarrow> real" where
  "min_from best [] = best"
| "min_from best (x # xs) = min_from (if x < best then x else best) xs"

fun max_from :: "real \<Rightarrow> real list \<Rightarrow> real" where
  "max_from best [] = best"
| "max_from best (x # xs) = max_from (if x > best then x else best) xs"

fun max_key_from :: "('a \<Rightarrow> nat) \<Rightarrow> 'a \<Rightarrow> 'a list \<Rightarrow> 'a" where
  "max_key_from key best [] = best"
| "max_key_from key best (x # xs) = max_key_from key (if key x > key best then x else best) xs"

definition py_min :: "real list \<Rightarrow> real option" where
  "py_min xs = (case xs of [] \<Rightarrow> None | x # r \<Rightarrow> Some (min_from x r))"

definition py_max :: "real list \<Rightarrow> real option" where
  "py_max xs = (case xs of [] \<Rightarrow> None | x # r \<Rightarrow> Some (max_from x r))"

definition mean :: "real list \<Rightarrow> real option" where
  "mean xs = (if xs \<noteq> [] then Some (sum_list xs / real (length xs)) else None)"

text \<open>
  \<open>max(set(e["desc"]), key=e["desc"].count) if e["desc"] else None\<close>. The outer
  \<open>None\<close> is \<open>max\<close> raising on an empty sequence.
\<close>

definition most_common :: "env \<Rightarrow> string option list \<Rightarrow> string option option option" where
  "most_common e ds =
     (if ds \<noteq> []
      then (case set_iter e ds of
              [] \<Rightarrow> None
            | x # xs \<Rightarrow> Some (Some (max_key_from (count_list ds) x xs)))
      else Some None)"

definition summarise :: "env \<Rightarrow> string \<Rightarrow> slot \<Rightarrow> daily option" where
  "summarise e day s =
     (let ts = not_none (temps s);
          ws = not_none (winds s);
          hs = not_none (hum s)
      in case most_common e (desc s) of
           None \<Rightarrow> None
         | Some common \<Rightarrow>
             Some \<lparr>date = day, temp_min_c = py_min ts, temp_max_c = py_max ts,
                   temp_avg_c = mean ts, common_description = common,
                   wind_avg_m_s = mean ws, humidity_avg = mean hs\<rparr>)"

text \<open>\<open>xs[:n]\<close>: a negative \<open>n\<close> counts from the end.\<close>

definition slice_to :: "int \<Rightarrow> 'a list \<Rightarrow> 'a list" where
  "slice_to n xs = (if 0 \<le> n then take (nat n) xs else take (nat (int (length xs) + n)) xs)"

text \<open>
  The second loop, over \<open>sorted(daily.keys())[:days]\<close>; \<open>daily[day]\<close> of a missing key
  would raise.
\<close>

definition aggregate :: "env \<Rightarrow> int \<Rightarrow> forecast_item list \<Rightarrow> daily list option" where
  "aggregate e days items =
     (case group_by_day e items [] of
        None \<Rightarrow> None
      | Some daily \<Rightarrow>
          those (map (\<lambda>day. case map_of daily day of
                               None \<Rightarrow> None
                             | Some s \<Rightarrow> summarise e day s)
                     (slice_to days (sort (map fst daily)))))"

definition fc_key :: "env \<Rightarrow> real \<Rightarrow> real \<Rightarrow> int \<Rightarrow> string" where
  "fc_key e la lo days = ''fc:'' @ fmt4 e la @ '','' @ fmt4 e lo @ '':'' @ str_int e days"

definition fetch_forecast_by_coord ::
    "env \<Rightarrow> real \<Rightarrow> real \<Rightarrow> int \<Rightarrow> world \<Rightarrow> daily list option \<times> world" where
  "fetch_forecast_by_coord e la lo days w =
     (if no_key e then (None, w)
      else
        let key = fc_key e la lo days;
            (hit, w1) = fresh FORECAST_TTL (forecast_cache w key) w
        in case hit of
             Some v \<Rightarrow> (Some v, w1)
           | None \<Rightarrow>
              (let w2 = send (ForecastRequest la lo) w1 in
               case forecast_api e la lo of
                 RequestFailed \<Rightarrow> (None, w2)
               | Response status body \<Rightarrow>
                   if status \<noteq> 200 then (None, w2)
                   else (case body of
                           None \<Rightarrow> (None, w2)
                         | Some lst \<Rightarrow>
                            (let items = (case lst of None \<Rightarrow> [] | Some xs \<Rightarrow> xs) in
                             case aggregate e days items of
                               None \<Rightarrow> (None, w2)
                             | Some result \<Rightarrow>
                                (let (now, w3) = now_ts w2
                                 in (Some result,
                                     w3\<lparr>forecast_cache :=
                                          (forecast_cache w3)(key \<mapsto> (result, now))\<rparr>))))))"

definition aqi_key :: "env \<Rightarrow> real \<Rightarrow> real \<Rightarrow> string" where
  "aqi_key e la lo = ''aqi:'' @ fmt4 e la @ '','' @ fmt4 e lo"

definition fetch_aqi_by_coord :: "env \<Rightarrow> real \<Rightarrow> real \<Rightarrow> world \<Rightarrow> aqi option \<times> world" where
  "fetch_aqi_by_coord e la lo w =
     (if no_key e then (None, w)
      else
        let key = aqi_key e la lo;
            (hit, w1) = fresh AQI_TTL (aqi_cache w key) w
        in case hit of
             Some v \<Rightarrow> (Some v, w1)
           | None \<Rightarrow>
              (let w2 = send (AqiRequest la lo) w1 in
               case aqi_api e la lo of
                 RequestFailed \<Rightarrow> (None, w2)
               | Response status body \<Rightarrow>
                   if status \<noteq> 200 then (None, w2)
                   else (case body of
                           Some (Some (el # _)) \<Rightarrow>
                             (let result = \<lparr>aqi_index = sub_get (el_main el),
                                            components = (case el_components el of
                                                            None \<Rightarrow> [] | Some c \<Rightarrow> c)\<rparr>;
                                  (now, w3) = now_ts w2
                              in (Some result,
                                  w3\<lparr>aqi_cache := (aqi_cache w3)(key \<mapsto> (result, now))\<rparr>))
                         | _ \<Rightarrow> (None, w2))))"

subsection \<open>The packet and its one-line summary\<close>

record packet =
  pk_location :: string
  pk_country :: "string option"
  pk_state :: "string option"
  pk_lat :: coordinate
  pk_lon :: coordinate
  pk_current :: "current option"
  pk_forecast :: "daily list option"
  pk_aqi :: "aqi option"
  pk_fetched_at :: real

text \<open>\<open>x or y\<close> on an optional string: \<open>x\<close> when it is present and not empty.\<close>

definition or_else :: "string option \<Rightarrow> string \<Rightarrow> string" where
  "or_else x y = (case x of None \<Rightarrow> y | Some v \<Rightarrow> if v = [] then y else v)"

text \<open>
  A call \<open>f(lat, lon)\<close> of one of the three fetch functions with the values of the
  geocoder. The functions are modelled above on floats, as their signatures declare.
  Each of them starts with \<open>if not OWM_KEY: return None\<close> and then builds its cache
  key (\<open>f"cur:{lat:.4f},{lon:.4f}"\<close> and the like) before its \<open>try\<close> block: on a value
  the format rejects, the exception leaves the function, with nothing sent or stored.
\<close>

definition call_fetch ::
    "env \<Rightarrow> (real \<Rightarrow> real \<Rightarrow> world \<Rightarrow> 'a option \<times> world) \<Rightarrow> coordinate \<Rightarrow> coordinate \<Rightarrow> world
       \<Rightarrow> 'a option result \<times> world" where
  "call_fetch e fetch lat lon w =
     (if no_key e then (Returned None, w)
      else (case (lat, lon) of
              (Formats la, Formats lo) \<Rightarrow> (let (r, w') = fetch la lo w in (Returned r, w'))
            | _ \<Rightarrow> (Raised, w)))"

text \<open>
  \<open>build_weather_packet\<close> has no \<open>try\<close> block of its own: an exception of a fetch
  leaves it too. \<open>geo\<close> is a dictionary of five keys, so \<open>not geo\<close> is \<open>geo is None\<close>.
\<close>

definition build_weather_packet ::
    "env \<Rightarrow> string \<Rightarrow> int \<Rightarrow> world \<Rightarrow> packet option result \<times> world" where
  "build_weather_packet e location forecast_days w =
     (if location = [] then (Returned None, w)
      else
        let (g, w1) = geocode_location e location w in
        case g of
          None \<Rightarrow> (Returned None, w1)
        | Some gr \<Rightarrow>
           (case (geo_lat gr, geo_lon gr) of
              (Some lat, Some lon) \<Rightarrow>
                (case call_fetch e (fetch_current_weather_by_coord e) lat lon w1 of
                   (Raised, w2) \<Rightarrow> (Raised, w2)
                 | (Returned cur, w2) \<Rightarrow>
                (case call_fetch e (\<lambda>la lo. fetch_forecast_by_coord e la lo forecast_days)
                        lat lon w2 of
                   (Raised, w3) \<Rightarrow> (Raised, w3)
                 | (Returned fc, w3) \<Rightarrow>
                (case call_fetch e (fetch_aqi_by_coord e) lat lon w3 of
                   (Raised, w4) \<Rightarrow> (Raised, w4)
                 | (Returned aq, w4) \<Rightarrow>
                (let (now, w5) = now_ts w4
                 in (Returned (Some \<lparr>pk_location = or_else (geo_name gr) location,
                            pk_country = geo_country gr, pk_state = geo_state gr,
                            pk_lat = lat, pk_lon = lon,
                            pk_current = cur, pk_forecast = fc, pk_aqi = aq,
                            pk_fetched_at = now\<rparr>), w5)))))
            | _ \<Rightarrow> (Returned None, w1)))"

text \<open>An f-string field: \<open>None\<close> is rendered as the word \<open>None\<close>.\<close>

definition show_opt :: "('a \<Rightarrow> string) \<Rightarrow> 'a option \<Rightarrow> string" where
  "show_opt f x = (case x of None \<Rightarrow> ''None'' | Some v \<Rightarrow> f v)"

definition degC :: string where
  "degC = [CHR 0xB0, CHR ''C'']"

definition aqi_text :: "real option \<Rightarrow> string" where
  "aqi_text v =
     (if v = Some 1 then ''Good'' else if v = Some 2 then ''Fair''
      else if v = Some 3 then ''Moderate'' else if v = Some 4 then ''Poor''
      else if v = Some 5 then ''Very Poor'' else ''Unknown'')"

definition current_lines :: "env \<Rightarrow> current option \<Rightarrow> string list" where
  "current_lines e c =
     (case c of
        None \<Rightarrow> []
      | Some cur \<Rightarrow>
          [''Current: '' @ show_opt id (description cur) @ '', ''
             @ show_opt (str_num e) (temp_c cur) @ degC @ '' (feels like ''
             @ show_opt (str_num e) (feels_like_c cur) @ degC @ '')'',
           ''Humidity: '' @ show_opt (str_num e) (cur_humidity cur) @ ''% | ''
             @ ''Wind: '' @ show_opt (str_num e) (wind_speed_m_s cur) @ '' m/s | ''
             @ ''Clouds: '' @ show_opt (str_num e) (clouds_pct cur) @ ''%''])"

definition aqi_lines :: "env \<Rightarrow> aqi option \<Rightarrow> string list" where
  "aqi_lines e a =
     (case a of
        None \<Rightarrow> []
      | Some aq \<Rightarrow>
          [''AQI: '' @ show_opt (str_num e) (aqi_index aq) @ '' ('' @ aqi_text (aqi_index aq) @ '')''])"

definition day_line :: "env \<Rightarrow> daily \<Rightarrow> string" where
  "day_line e d =
     date d @ '': ''
       @ (case common_description d of None \<Rightarrow> ''None'' | Some c \<Rightarrow> show_opt id c) @ '', ''
       @ show_opt (str_num e) (temp_min_c d) @ degC @ '' - ''
       @ show_opt (str_num e) (temp_max_c d) @ degC"

definition format_packet_for_prompt :: "env \<Rightarrow> packet \<Rightarrow> string" where
  "format_packet_for_prompt e pkt =
     (let head_line = pk_location pkt
                        @ (case pk_country pkt of
                             None \<Rightarrow> []
                           | Some c \<Rightarrow> if c = [] then [] else '', '' @ c);
          fc = (case pk_forecast pkt of None \<Rightarrow> [] | Some f \<Rightarrow> f)
      in join '' | '' ([head_line] @ current_lines e (pk_current pkt) @ aqi_lines e (pk_aqi pkt)
                       @ map (day_line e) (take 3 fc)))"

record weather_result =
  res_packet :: packet
  res_summary :: string

definition get_weather_summary_for_prompt ::
    "env \<Rightarrow> string \<Rightarrow> int \<Rightarrow> world \<Rightarrow> weather_result option result \<times> world" where
  "get_weather_summary_for_prompt e location forecast_days w =
     (let (pkt, w') = build_weather_packet e location forecast_days w in
      case pkt of
        Raised \<Rightarrow> (Raised, w')
      | Returned None \<Rightarrow> (Returned None, w')
      | Returned (Some p) \<Rightarrow>
          (Returned (Some \<lparr>res_packet = p, res_summary = format_packet_for_prompt e p\<rparr>), w'))"

section \<open>Prompt assembly (\<open>stream\<close> in \<open>main.py\<close>)\<close>

record message =
  role :: string
  content :: string

definition nl :: string where
  "nl = [CHR 0x0A]"

definition dq :: string where
  "dq = [CHR 0x22]"

definition system_prompt :: string where
  "system_prompt = nl @ concat (map (\<lambda>l. l @ nl)
     [''You are KEN ASSISTANT.'',
      [],
      ''IMPORTANT RULES FOR WEATHER ANSWERS:'',
      ''1. When WEATHER_PACKET_JSON is provided, you MUST use ONLY that data.'',
      ''2. NEVER guess, assume, or fabricate any weather info.'',
      ''3. NEVER use AccuWeather, Google, or any external sources.'',
      ''4. ONLY use data explicitly given inside WEATHER_PACKET_JSON.'',
      ''5. If something is missing in the packet, say '' @ dq @ ''Weather data unavailable'' @ dq @ ''.'',
      ''6. Do NOT invent dates, temperatures, humidity, wind speeds, or conditions.'',
      ''7. Your weather response MUST be based strictly on WEATHER_PACKET_JSON and/or the human-readable Weather Summary.'',
      [],
      ''Respond clearly, accurately, and in Markdown format.''])"

text \<open>
  The weather step of a turn: with a location (present and not empty) the engine is
  asked for five days; its answer, when there is one, gives the summary and the packet.
  The call is inside \<open>try\<close> ... \<open>except Exception\<close>, which sets both to \<open>None\<close>.
\<close>

definition weather_for_turn ::
    "env \<Rightarrow> string option \<Rightarrow> world \<Rightarrow> (string option \<times> packet option) \<times> world" where
  "weather_for_turn e location w =
     (case location of
        None \<Rightarrow> ((None, None), w)
      | Some loc \<Rightarrow>
          if loc = [] then ((None, None), w)
          else (case get_weather_summary_for_prompt e loc 5 w of
                  (Raised, w') \<Rightarrow> ((None, None), w')
                | (Returned None, w') \<Rightarrow> ((None, None), w')
                | (Returned (Some res), w') \<Rightarrow>
                    ((Some (res_summary res), Some (res_packet res)), w')))"

text \<open>
  The message list. \<open>weather_summary and weather_packet\<close>: the summary is present and
  not empty, and the packet is present (a dictionary of nine keys, never empty).
  \<open>json_dumps\<close> is \<open>json.dumps(weather_packet, indent=2, default=str)\<close>; \<open>history\<close> holds
  the rows \<open>(message, role)\<close> in the order of the query.
\<close>

definition build_messages ::
    "(packet \<Rightarrow> string) \<Rightarrow> string option \<Rightarrow> string option \<Rightarrow> packet option
       \<Rightarrow> (string \<times> string) list \<Rightarrow> string \<Rightarrow> message list" where
  "build_messages json_dumps location weather_summary weather_packet history user_message =
     (let messages = [\<lparr>role = ''system'', content = system_prompt\<rparr>];
          messages =
            (case (weather_summary, weather_packet) of
               (Some summary, Some pkt) \<Rightarrow>
                  if summary = [] then messages
                  else messages
                    @ [\<lparr>role = ''system'',
                        content = ''Weather summary for '' @ show_opt id location @ '': '' @ summary\<rparr>]
                    @ [\<lparr>role = ''system'',
                        content = ''WEATHER_PACKET_JSON:'' @ nl @ ''```json'' @ nl
                                    @ json_dumps pkt @ nl @ ''```''\<rparr>]
             | _ \<Rightarrow> messages);
          messages = messages @ map (\<lambda>(m, r). \<lparr>role = r, content = m\<rparr>) history
      in messages @ [\<lparr>role = ''user'', content = user_message\<rparr>])"

text \<open>The data the turn hands to the model: resolution, weather step, message list.\<close>

definition turn_messages ::
    "env \<Rightarrow> (packet \<Rightarrow> string) \<Rightarrow> string option \<Rightarrow> (string \<times> string) list \<Rightarrow> string
       \<Rightarrow> world \<Rightarrow> message list \<times> world" where
  "turn_messages e json_dumps chat_last_location history user_message w =
     (let location = resolve_location user_message chat_last_location;
          ((weather_summary, weather_packet), w') = weather_for_turn e location w
      in (build_messages json_dumps location weather_summary weather_packet history user_message, w'))"

section \<open>The token relay (\<open>generate\<close> in \<open>main.py\<close>)\<close>

text \<open>
  A decoded JSON value. \<open>json.loads\<close> is a parameter of the relay: \<open>None\<close> when it
  raises. An object is the list of its items; a key is looked up with \<open>map_of\<close>.
\<close>

datatype json =
    JNull
  | JBool bool
  | JNum real
  | JStr string
  | JArr "json list"
  | JObj "(string \<times> json) list"

text \<open>Truth value of a decoded value, as \<open>if token:\<close> tests it.\<close>

fun truthy :: "json \<Rightarrow> bool" where
  "truthy JNull = False"
| "truthy (JBool b) = b"
| "truthy (JNum x) = (x \<noteq> 0)"
| "truthy (JStr s) = (s \<noteq> [])"
| "truthy (JArr xs) = (xs \<noteq> [])"
| "truthy (JObj kvs) = (kvs \<noteq> [])"

text \<open>
  \<open>j.get("message", {}).get("content", "")\<close>: \<open>None\<close> when \<open>j\<close> or its \<open>message\<close> is
  not an object (\<open>AttributeError\<close>).
\<close>

definition token_of :: "json \<Rightarrow> json option" where
  "token_of j =
     (case j of
        JObj kvs \<Rightarrow>
          (case map_of kvs ''message'' of
             None \<Rightarrow> Some (JStr [])
           | Some (JObj m) \<Rightarrow>
               (case map_of m ''content'' of None \<Rightarrow> Some (JStr []) | Some tok \<Rightarrow> Some tok)
           | Some _ \<Rightarrow> None)
      | _ \<Rightarrow> None)"

text \<open>\<open>text.split("\<bsol>n")\<close>: the pieces between the separators, empty ones included.\<close>

fun split_on :: "char \<Rightarrow> string \<Rightarrow> string \<Rightarrow> string list" where
  "split_on sep cur [] = [cur]"
| "split_on sep cur (c # cs) =
     (if c = sep then cur # split_on sep [] cs else split_on sep (cur @ [c]) cs)"

text \<open>
  The state of the generator: the accumulator \<open>full_response\<close> and the tokens yielded so
  far. One line of a chunk: a blank line is skipped; a truthy string token is appended
  and yielded; a falsy token does nothing; every exception of the \<open>try\<close> block
  (\<open>json.loads\<close>, the two \<open>get\<close>s, \<open>+=\<close> with a token that is not a string) appends and
  yields the raw line.
\<close>

record relay =
  full_response :: string
  yielded :: "string list"

definition relay_line :: "(string \<Rightarrow> json option) \<Rightarrow> relay \<Rightarrow> string \<Rightarrow> relay" where
  "relay_line json_loads st line =
     (let raw_line = \<lparr>full_response = full_response st @ line, yielded = yielded st @ [line]\<rparr> in
      if strip line = [] then st
      else (case json_loads line of
              None \<Rightarrow> raw_line
            | Some j \<Rightarrow>
               (case token_of j of
                  None \<Rightarrow> raw_line
                | Some tok \<Rightarrow>
                    if truthy tok
                    then (case tok of
                            JStr t \<Rightarrow> \<lparr>full_response = full_response st @ t,
                                       yielded = yielded st @ [t]\<rparr>
                          | _ \<Rightarrow> raw_line)
                    else st)))"

definition relay_chunk :: "(string \<Rightarrow> json option) \<Rightarrow> relay \<Rightarrow> string \<Rightarrow> relay" where
  "relay_chunk json_loads st text = foldl (relay_line json_loads) st (split_on (CHR 0x0A) [] text)"

text \<open>
  What the backend does in one turn. The request may fail before any answer
  (\<open>httpx.RequestError\<close> or another exception, with its message). An answer has a status,
  the outcome of \<open>await resp.text()\<close> (\<open>None\<close> when it raises), and a body: the chunks
  \<open>aiter_bytes\<close> delivers, each decoded and paired with what \<open>request.is_disconnected()\<close>
  returns before it is processed, and the way the body ends.
\<close>

datatype failure = RequestError string | OtherError string

datatype body_end = Eof | Broken failure

datatype backend =
    NoAnswer failure
  | Answer nat "string option" "(bool \<times> string) list" body_end

text \<open>
  The result of a turn: the tokens the client was sent, and the text of the assistant
  row inserted after the stream (\<open>None\<close> when no insert is attempted).
\<close>

record outcome =
  sent_tokens :: "string list"
  persisted :: "string option"

definition error_token :: "failure \<Rightarrow> string" where
  "error_token f =
     (case f of
        RequestError msg \<Rightarrow> ''Network error: '' @ msg
      | OtherError msg \<Rightarrow> ''Unexpected error: '' @ msg)"

text \<open>The cross mark at the head of the model-error token, in UTF-8.\<close>

definition cross_mark :: string where
  "cross_mark = [CHR 0xE2, CHR 0x9D, CHR 0x8C]"

text \<open>
  The loop over the body. A disconnect seen before a chunk sets \<open>cancelled\<close> and leaves
  the loop; a failure while reading yields its error token and returns; at the end of
  the body the accumulated text is inserted.
\<close>

fun relay_body ::
    "(string \<Rightarrow> json option) \<Rightarrow> relay \<Rightarrow> (bool \<times> string) list \<Rightarrow> body_end \<Rightarrow> outcome" where
  "relay_body json_loads st [] fin =
     (case fin of
        Eof \<Rightarrow> \<lparr>sent_tokens = yielded st, persisted = Some (full_response st)\<rparr>
      | Broken f \<Rightarrow> \<lparr>sent_tokens = yielded st @ [error_token f], persisted = None\<rparr>)"
| "relay_body json_loads st ((disconnected, text) # chunks) fin =
     (if disconnected then \<lparr>sent_tokens = yielded st, persisted = None\<rparr>
      else relay_body json_loads (relay_chunk json_loads st text) chunks fin)"

definition generate :: "(string \<Rightarrow> json option) \<Rightarrow> backend \<Rightarrow> outcome" where
  "generate json_loads b =
     (case b of
        NoAnswer f \<Rightarrow> \<lparr>sent_tokens = [error_token f], persisted = None\<rparr>
      | Answer status txt chunks fin \<Rightarrow>
          if status \<noteq> 200
          then \<lparr>sent_tokens = [cross_mark @ '' LLM model error: ''
                                  @ (case txt of None \<Rightarrow> ''Model error'' | Some t \<Rightarrow> t)],
                persisted = None\<rparr>
          else relay_body json_loads \<lparr>full_response = [], yielded = []\<rparr> chunks fin)"

section \<open>Example data\<close>

text \<open>\<open>json.loads\<close> on the lines of the example stream: the line that carries a token.\<close>

definition token_line :: "string \<Rightarrow> string" where
  "token_line tok = ''{'' @ dq @ ''message'' @ dq @ '': {'' @ dq @ ''content'' @ dq @ '': ''
                      @ dq @ tok @ dq @ ''}}''"

definition example_loads :: "string \<Rightarrow> json option" where
  "example_loads line =
     map_of (map (\<lambda>tok. (token_line tok, JObj [(''message'', JObj [(''content'', JStr tok)])]))
                 [''Sun'', ''ny '', ''in '', ''Goa'', ''.'']) line"

definition example_chunks :: "(bool \<times> string) list" where
  "example_chunks =
     [(False, token_line ''Sun''),
      (False, token_line ''ny '' @ nl @ token_line ''in ''),
      (False, ''not json'' @ nl)]"

section \<open>The normalisation step as the specification words it\<close>

text \<open>
  The specification's normalisation of a captured candidate, for comparison with the
  code: delete the stop-words the, at, in, for, near, th, is, present; trim; reject a
  result of at most two characters; title-case.
\<close>

definition spec_normalize :: "string \<Rightarrow> string option" where
  "spec_normalize candidate =
     (let c = strip (re_sub stop_fallback candidate)
      in if length c \<le> 2 then None else Some (title c))"

section \<open>States of the caches a process can reach\<close>


text \<open>An answer on which every fetch function gives up.\<close>

definition failed :: "'a http \<Rightarrow> bool" where
  "failed r = (case r of RequestFailed \<Rightarrow> True | Response status body \<Rightarrow> status \<noteq> 200 \<or> body = None)"

section \<open>An example provider\<close>

text \<open>
  A provider that knows one place, with four forecast samples: three on 2023-11-15
  (20, 25 and 30 degrees) and, listed last, one on 2023-11-14 without a \<open>main\<close> block.
  The library functions of the environment are given on the values of the example.
\<close>

definition example_geo :: geo where
  "example_geo = \<lparr>geo_name = Some ''Goa'', geo_lat = Some (Formats 15.3),
                  geo_lon = Some (Formats 74.1), geo_country = Some ''IN'', geo_state = None\<rparr>"

definition example_current :: current_payload where
  "example_current =
     \<lparr>cp_name = Some ''Goa'', cp_weather = Some [Some ''haze''],
      cp_main = Some \<lparr>temp = Some 29, feels_like = Some 33, humidity = Some 70,
                      pressure = Some 1010\<rparr>,
      cp_wind = Some (Some 3), cp_clouds = Some None\<rparr>"

definition sample :: "real \<Rightarrow> string \<Rightarrow> real \<Rightarrow> forecast_item" where
  "sample ts d t =
     \<lparr>dt = Some ts, it_weather = Some [Some d],
      it_main = Some \<lparr>temp = Some t, feels_like = None, humidity = Some 60, pressure = None\<rparr>,
      it_wind = Some (Some 4)\<rparr>"

definition example_items :: "forecast_item list" where
  "example_items =
     [sample 1700006400 ''clear sky'' 20,
      sample 1700017200 ''light rain'' 25,
      sample 1700028000 ''light rain'' 30,
      \<lparr>dt = Some 1699999200, it_weather = Some [Some ''mist''], it_main = None,
       it_wind = None\<rparr>]"

definition example_day_str :: "real option \<Rightarrow> string option" where
  "example_day_str ts =
     (case ts of
        None \<Rightarrow> None
      | Some t \<Rightarrow>
          if 1699920000 \<le> t \<and> t < 1700006400 then Some ''2023-11-14''
          else if 1700006400 \<le> t \<and> t < 1700092800 then Some ''2023-11-15''
          else None)"

definition example_fmt4 :: "real \<Rightarrow> string" where
  "example_fmt4 x = (if x = 15.3 then ''15.3000'' else if x = 74.1 then ''74.1000'' else ''0.0000'')"

definition example_env :: env where
  "example_env =
     \<lparr>owm_key = Some ''k'',
      geo_api = (\<lambda>q. Response 200 (Some [example_geo])),
      current_api = (\<lambda>la lo. Response 200 (Some example_current)),
      forecast_api = (\<lambda>la lo. Response 200 (Some (Some example_items))),
      aqi_api = (\<lambda>la lo. Response 200
                   (Some (Some [\<lparr>el_main = Some (Some 2), el_components = None\<rparr>]))),
      fmt4 = example_fmt4,
      str_int = (\<lambda>n. if n = 5 then ''5'' else ''n''),
      str_num = (\<lambda>x. ''x''),
      day_str = example_day_str,
      set_iter = remdups\<rparr>"

text \<open>The same provider while every endpoint but geocoding and the forecast is down.\<close>

definition example_outage :: env where
  "example_outage =
     example_env\<lparr>current_api := (\<lambda>la lo. RequestFailed),
                 aqi_api := (\<lambda>la lo. Response 503 None)\<rparr>"

text \<open>
  A freshly loaded module. The clock advances by ten seconds for the first six readings;
  the seventh is 4000 seconds and the later ones 100000 seconds after the first.
\<close>

definition example_clock :: "nat \<Rightarrow> real" where
  "example_clock n =
     1700000000 + (if n \<le> 5 then 10 * real n else if n = 6 then 4000 else 100000)"

definition example_world :: world where
  "example_world =
     \<lparr>geo_cache = Map.empty, current_cache = Map.empty, forecast_cache = Map.empty,
      aqi_cache = Map.empty, clock = example_clock, ticks = 0, sent = []\<rparr>"



definition example_forecast :: "daily list" where
  "example_forecast =
     [\<lparr>date = ''2023-11-14'', temp_min_c = None, temp_max_c = None, temp_avg_c = None,
       common_description = Some (Some ''mist''), wind_avg_m_s = None, humidity_avg = None\<rparr>,
      \<lparr>date = ''2023-11-15'', temp_min_c = Some 20, temp_max_c = Some 30, temp_avg_c = Some 25,
       common_description = Some (Some ''light rain''), wind_avg_m_s = Some 4,
       humidity_avg = Some 60\<rparr>]"

text \<open>
  The example provider with a geocoder that answers with the latitude as a string
  (\<open>"lat": "15.3"\<close>).
\<close>

definition example_quoted :: env where
  "example_quoted =
     example_env\<lparr>geo_api := (\<lambda>q. Response 200 (Some [example_geo\<lparr>geo_lat := Some Unformattable\<rparr>]))\<rparr>"

section \<open>Notions used to state the aggregation properties\<close>

text \<open>
  The description an item contributes to its day: that of its first \<open>weather\<close> entry,
  \<open>None\<close> when that entry has none or the key is missing.
\<close>

definition item_description :: "forecast_item \<Rightarrow> string option" where
  "item_description it = (case it_weather it of Some (d # _) \<Rightarrow> d | _ \<Rightarrow> None)"

text \<open>
  The mode as the specification words it: the most frequent value, the first
  encountered among tied ones.
\<close>

definition spec_mode :: "'a list \<Rightarrow> 'a option" where
  "spec_mode ds = (case ds of [] \<Rightarrow> None | x # xs \<Rightarrow> Some (max_key_from (count_list ds) x xs))"



text \<open>
  The samples that fall on the UTC day \<open>d\<close>, in the order of the answer, and the
  distinct days of the samples in ascending order.
\<close>

definition day_items :: "env \<Rightarrow> string \<Rightarrow> forecast_item list \<Rightarrow> forecast_item list" where
  "day_items e d items = filter (\<lambda>it. day_str e (dt it) = Some d) items"

definition days_of :: "env \<Rightarrow> forecast_item list \<Rightarrow> string list" where
  "days_of e items = sort (remdups (not_none (map (\<lambda>it. day_str e (dt it)) items)))"

chapter \<open>Verified properties\<close>

section \<open>The token relay\<close>

lemma relay_line_concat:
  "full_response st = concat (yielded st) \<Longrightarrow>
   full_response (relay_line jl st line) = concat (yielded (relay_line jl st line))"
  by (auto simp: relay_line_def Let_def split: option.splits json.splits)

lemma foldl_relay_line_concat:
  "full_response st = concat (yielded st) \<Longrightarrow>
   full_response (foldl (relay_line jl) st ls) = concat (yielded (foldl (relay_line jl) st ls))"
  by (induction ls arbitrary: st) (auto simp: relay_line_concat)

lemma relay_chunk_concat:
  "full_response st = concat (yielded st) \<Longrightarrow>
   full_response (relay_chunk jl st tx) = concat (yielded (relay_chunk jl st tx))"
  by (simp add: relay_chunk_def foldl_relay_line_concat)

lemma relay_body_cancel:
  "\<forall>c \<in> set pre. \<not> fst c \<Longrightarrow>
   relay_body jl st (pre @ (True, t) # post) fin =
     \<lparr>sent_tokens = sent_tokens (relay_body jl st pre Eof), persisted = None\<rparr>"
  by (induction pre arbitrary: st) auto

lemma relay_body_persisted:
  "persisted (relay_body jl st chunks fin) = Some full \<Longrightarrow>
   full_response st = concat (yielded st) \<Longrightarrow>
   fin = Eof \<and> (\<forall>c \<in> set chunks. \<not> fst c)
     \<and> full = concat (sent_tokens (relay_body jl st chunks fin))"
proof (induction chunks arbitrary: st)
  case Nil
  then show ?case by (cases fin) auto
next
  case (Cons c chunks)
  obtain d tx where c: "c = (d, tx)" by (cases c)
  show ?case
  proof (cases d)
    case True
    with Cons.prems c show ?thesis by simp
  next
    case False
    with Cons.prems c Cons.IH[of "relay_chunk jl st tx"] show ?thesis
      by (simp add: relay_chunk_concat)
  qed
qed

lemma relay_body_completed:
  "\<forall>c \<in> set chunks. \<not> fst c \<Longrightarrow>
   \<exists>full. persisted (relay_body jl st chunks Eof) = Some full"
  by (induction chunks arbitrary: st) auto

text \<open>
  Claim C1. On an answer with status 200: when the disconnect check is first positive
  before some chunk, the turn sends exactly the tokens of the chunks before it (what a
  body ending there would have sent), whatever follows, and inserts no assistant row.
  An assistant row is inserted only when the answer has status 200, the body ends
  without a failure and no check was positive; it is then the concatenation of the
  tokens sent, and such a stream always inserts it.
\<close>

theorem disconnect_discards_partial_response:
  "((\<forall>c \<in> set pre. \<not> fst c) \<longrightarrow>
      generate jl (Answer 200 txt (pre @ (True, t) # post) fin) =
        \<lparr>sent_tokens = sent_tokens (generate jl (Answer 200 txt pre Eof)), persisted = None\<rparr>)
   \<and> (persisted (generate jl b) = Some full \<longrightarrow>
        (\<exists>tx chunks. b = Answer 200 tx chunks Eof \<and> (\<forall>c \<in> set chunks. \<not> fst c)
           \<and> full = concat (sent_tokens (generate jl b))))
   \<and> ((\<forall>c \<in> set chunks. \<not> fst c) \<longrightarrow>
        persisted (generate jl (Answer 200 txt chunks Eof)) =
          Some (concat (sent_tokens (generate jl (Answer 200 txt chunks Eof)))))"
proof (intro conjI impI)
  assume "\<forall>c \<in> set pre. \<not> fst c"
  then show "generate jl (Answer 200 txt (pre @ (True, t) # post) fin) =
        \<lparr>sent_tokens = sent_tokens (generate jl (Answer 200 txt pre Eof)), persisted = None\<rparr>"
    by (simp add: generate_def relay_body_cancel)
next
  assume p: "persisted (generate jl b) = Some full"
  show "\<exists>tx chunks. b = Answer 200 tx chunks Eof \<and> (\<forall>c \<in> set chunks. \<not> fst c)
           \<and> full = concat (sent_tokens (generate jl b))"
  proof (cases b)
    case (NoAnswer f)
    with p show ?thesis by (simp add: generate_def)
  next
    case (Answer status tx chunks fin)
    with p have s: "status = 200" by (auto simp: generate_def split: if_splits)
    with p Answer
    have "persisted (relay_body jl \<lparr>full_response = [], yielded = []\<rparr> chunks fin) = Some full"
      by (simp add: generate_def)
    from relay_body_persisted[OF this] Answer s show ?thesis
      by (simp add: generate_def)
  qed
next
  assume n: "\<forall>c \<in> set chunks. \<not> fst c"
  from relay_body_completed[OF n, of jl "\<lparr>full_response = [], yielded = []\<rparr>"]
  obtain full where
    f: "persisted (relay_body jl \<lparr>full_response = [], yielded = []\<rparr> chunks Eof) = Some full"
    by blast
  from relay_body_persisted[OF f] f
  show "persisted (generate jl (Answer 200 txt chunks Eof)) =
          Some (concat (sent_tokens (generate jl (Answer 200 txt chunks Eof))))"
    by (simp add: generate_def)
qed

text \<open>
  Ten chunks, the disconnect seen before the fourth: the client has the tokens of the
  first three (a raw line among them), nothing is inserted; the same three chunks as a
  whole body are inserted.
\<close>

theorem disconnect_discards_partial_response_witness:
  "generate example_loads (Answer 200 None
      (example_chunks @ (True, token_line ''Goa'') # replicate 6 (False, token_line ''.'')) Eof)
     = \<lparr>sent_tokens = [''Sun'', ''ny '', ''in '', ''not json''], persisted = None\<rparr>
   \<and> persisted (generate example_loads (Answer 200 None example_chunks Eof))
       = Some ''Sunny in not json''
   \<and> length (example_chunks @ (True, token_line ''Goa'') # replicate 6 (False, token_line ''.'')) = 10"
proof -
  have h: "\<forall>c \<in> set example_chunks. \<not> fst c"
    by (simp add: example_chunks_def)
  have g: "generate example_loads (Answer 200 None example_chunks Eof)
             = \<lparr>sent_tokens = [''Sun'', ''ny '', ''in '', ''not json''],
                 persisted = Some ''Sunny in not json''\<rparr>"
    by code_simp
  have p: "persisted (generate example_loads (Answer 200 None example_chunks Eof))
             = Some ''Sunny in not json''"
    by (simp add: g)
  have l: "length example_chunks = 3"
    by (simp add: example_chunks_def)
  from disconnect_discards_partial_response
         [of example_chunks example_loads None "token_line ''Goa''"
             "replicate 6 (False, token_line ''.'')" Eof
             "Answer 200 None example_chunks Eof" "''Sunny in not json''" example_chunks]
       h p l
  show ?thesis by (simp add: g)
qed

section \<open>Location resolution\<close>

text \<open>
  Claim C4. With the last location Pune, the query "what about tomorrow" does not
  resolve to Pune: none of the patterns matches, and the trailing-words fallback
  returns the three words of the query themselves, title-cased, so the follow-up test
  is never consulted.
\<close>

theorem followup_query_resolves_to_its_own_words:
  "extract_location ''what about tomorrow'' = Some ''What About Tomorrow''
   \<and> is_weather_followup ''what about tomorrow''
   \<and> resolve_location ''what about tomorrow'' (Some ''Pune'') = Some ''What About Tomorrow''"
  by code_simp


lemma length_title_from: "length (title_from b s) = length s"
  by (induction s arbitrary: b) auto

lemma length_title: "length (title s) = length s"
  by (simp add: title_def length_title_from)

lemma phrase_candidate_Some:
  "phrase_candidate g = Some r \<longleftrightarrow>
     2 < length (strip (re_sub stop_phrase (strip g)))
     \<and> r = title (strip (re_sub stop_phrase (strip g)))"
  by (auto simp: phrase_candidate_def Let_def)

lemma fallback_candidate_Some:
  "fallback_candidate ws sz = Some r \<longleftrightarrow>
     2 < length (strip (re_sub stop_fallback (join '' '' (drop (length ws - sz) ws))))
     \<and> r = title (strip (re_sub stop_fallback (join '' '' (drop (length ws - sz) ws))))"
  by (auto simp: fallback_candidate_def Let_def)

lemma fallback_candidate_None:
  "fallback_candidate ws sz = None \<longleftrightarrow>
     length (strip (re_sub stop_fallback (join '' '' (drop (length ws - sz) ws)))) \<le> 2"
  by (auto simp: fallback_candidate_def Let_def)

lemma try_patterns_sound:
  "try_patterns ps q = Some r \<Longrightarrow>
   \<exists>p g. p \<in> set ps \<and> re_search p q = Some (Some g) \<and> phrase_candidate g = Some r"
  by (induction ps) (auto split: option.splits)

lemma try_reverse_sound:
  "try_reverse q = Some r \<Longrightarrow>
   \<exists>g. re_search rev_pattern q = Some (Some g) \<and> phrase_candidate g = Some r"
  by (auto simp: try_reverse_def split: option.splits)

lemma try_sizes_sound:
  "try_sizes szs ws = Some r \<Longrightarrow>
   \<exists>sz \<in> set szs. sz \<le> length ws \<and> fallback_candidate ws sz = Some r"
  by (induction szs) (auto split: option.splits if_splits)

lemma try_sizes_None:
  "try_sizes szs ws = None \<Longrightarrow> sz \<in> set szs \<Longrightarrow> sz \<le> length ws \<Longrightarrow>
   fallback_candidate ws sz = None"
  by (induction szs) (auto split: option.splits if_splits)

lemma drop_last_word: "ws \<noteq> [] \<Longrightarrow> drop (length ws - Suc 0) ws = [last ws]"
  by (induction ws rule: rev_induct) auto

lemma split_empty_query: "split (lower (strip [])) = []"
  by (simp add: split_def lower_def strip_def)

lemma extract_location_title:
  "extract_location query = Some r \<Longrightarrow> \<exists>c. 2 < length c \<and> r = title c"
proof -
  assume a: "extract_location query = Some r"
  let ?q = "lower (strip query)"
  show ?thesis
  proof (cases "try_patterns patterns ?q")
    case (Some r1)
    with a have "r = r1" by (auto simp: extract_location_def Let_def split: if_splits)
    with try_patterns_sound[OF Some] show ?thesis by (auto simp: phrase_candidate_Some)
  next
    case None
    show ?thesis
    proof (cases "try_reverse ?q")
      case (Some r2)
      with a None have "r = r2" by (auto simp: extract_location_def Let_def split: if_splits)
      with try_reverse_sound[OF Some] show ?thesis by (auto simp: phrase_candidate_Some)
    next
      case n2: None
      with a None have "try_sizes [3, 2, 1] (split ?q) = Some r"
        by (auto simp: extract_location_def Let_def split: if_splits)
      from try_sizes_sound[OF this] show ?thesis by (auto simp: fallback_candidate_Some)
    qed
  qed
qed

lemma extract_location_None:
  assumes "extract_location query = None" "sz \<in> {1, 2, 3}"
          "sz \<le> length (split (lower (strip query)))"
  shows "fallback_candidate (split (lower (strip query))) sz = None"
proof (cases "query = []")
  case True
  with assms(3) split_empty_query assms(2) show ?thesis by auto
next
  case False
  with assms(1) have "try_sizes [3, 2, 1] (split (lower (strip query))) = None"
    using assms(2,3)
    by (auto simp: extract_location_def Let_def split: option.splits if_splits)
  from try_sizes_None[OF this, of sz] assms(2,3) show ?thesis by auto
qed

lemma extract_location_last_word:
  assumes "split (lower (strip query)) \<noteq> []"
          "2 < length (strip (re_sub stop_fallback (last (split (lower (strip query))))))"
  shows "extract_location query \<noteq> None"
proof
  assume n: "extract_location query = None"
  let ?ws = "split (lower (strip query))"
  from assms(1) have "1 \<le> length ?ws" by (cases ?ws) auto
  from extract_location_None[OF n, of 1] this have "fallback_candidate ?ws 1 = None" by simp
  with assms show False
    by (simp add: fallback_candidate_None drop_last_word)
qed

text \<open>
  Claim C10. When the last word of the query, with the fallback's stop-words deleted
  and trimmed, is longer than two characters, extraction returns a title-cased
  candidate of more than two characters, whatever the query is about, and resolution
  returns that candidate. Resolution differs from extraction (the last location was
  taken through the follow-up branch) only when extraction returned nothing, and then
  each of the trailing three, two and one words is trivial after stop-word deletion.
\<close>

theorem trailing_word_fallback_answers:
  "(split (lower (strip query)) \<noteq> []
      \<and> 2 < length (strip (re_sub stop_fallback (last (split (lower (strip query))))))
    \<longrightarrow> (\<exists>c. 2 < length c \<and> extract_location query = Some (title c)
              \<and> resolve_location query last_location = Some (title c)))
   \<and> (resolve_location query last_location \<noteq> extract_location query
    \<longrightarrow> extract_location query = None
        \<and> (\<forall>sz \<in> {1, 2, 3}. sz \<le> length (split (lower (strip query))) \<longrightarrow>
              length (strip (re_sub stop_fallback
                 (join '' '' (drop (length (split (lower (strip query))) - sz)
                                   (split (lower (strip query))))))) \<le> 2))"
proof (intro conjI impI)
  assume h: "split (lower (strip query)) \<noteq> []
      \<and> 2 < length (strip (re_sub stop_fallback (last (split (lower (strip query))))))"
  with extract_location_last_word[of query] obtain r where r: "extract_location query = Some r"
    by auto
  from extract_location_title[OF r] obtain c where c: "2 < length c" "r = title c" by blast
  then have "title c \<noteq> []" using length_title[of c] by auto
  with r c show "\<exists>c. 2 < length c \<and> extract_location query = Some (title c)
              \<and> resolve_location query last_location = Some (title c)"
    by (auto simp: resolve_location_def Let_def)
next
  assume d: "resolve_location query last_location \<noteq> extract_location query"
  show n: "extract_location query = None"
  proof (cases "extract_location query")
    case None then show ?thesis .
  next
    case (Some r)
    from extract_location_title[OF Some] obtain c where c: "2 < length c" "r = title c" by blast
    then have "r \<noteq> []" using length_title[of c] by auto
    with Some d show ?thesis by (simp add: resolve_location_def Let_def)
  qed
  show "\<forall>sz \<in> {1, 2, 3}. sz \<le> length (split (lower (strip query))) \<longrightarrow>
              length (strip (re_sub stop_fallback
                 (join '' '' (drop (length (split (lower (strip query))) - sz)
                                   (split (lower (strip query))))))) \<le> 2"
    using extract_location_None[OF n] by (simp add: fallback_candidate_None)
qed

text \<open>
  A query with no weather intent is answered by the fallback; a query whose trailing
  words are all stop-words reaches the follow-up branch.
\<close>

theorem trailing_word_fallback_answers_witness:
  "(\<exists>c. 2 < length c \<and> extract_location ''tell me a joke'' = Some (title c)
        \<and> resolve_location ''tell me a joke'' (Some ''Pune'') = Some (title c))
   \<and> extract_location ''today is at th'' = None
   \<and> resolve_location ''today is at th'' (Some ''Pune'') = Some ''Pune''"
proof -
  have h1: "split (lower (strip ''tell me a joke'')) \<noteq> []
      \<and> 2 < length (strip (re_sub stop_fallback (last (split (lower (strip ''tell me a joke''))))))"
    by code_simp
  have h2: "resolve_location ''today is at th'' (Some ''Pune'') = Some ''Pune''"
    by code_simp
  have h3: "resolve_location ''today is at th'' (Some ''Pune'') \<noteq> extract_location ''today is at th''"
    by code_simp
  from trailing_word_fallback_answers[of "''tell me a joke''" "Some ''Pune''"] h1
  have a: "\<exists>c. 2 < length c \<and> extract_location ''tell me a joke'' = Some (title c)
        \<and> resolve_location ''tell me a joke'' (Some ''Pune'') = Some (title c)"
    by blast
  from trailing_word_fallback_answers[of "''today is at th''" "Some ''Pune''"] h3
  have b: "extract_location ''today is at th'' = None"
    by blast
  from a b h2 show ?thesis by blast
qed

text \<open>
  Claim C8. The trailing-words fallback deletes the stop-words the, at, in, for, near,
  th, is and present; the phrase patterns and the reverse pattern delete only the first
  six. On "what is the weather at present" the second phrase pattern captures
  "present": the normalisation of the specification (and of the fallback) rejects that
  candidate, the phrase branch returns it as the location "Present". The same happens
  on "weather in present".
\<close>

theorem phrase_branch_keeps_present:
  "re_search (patterns ! 1) (lower (strip ''what is the weather at present''))
     = Some (Some ''present'')
   \<and> spec_normalize ''present'' = None
   \<and> fallback_candidate [''present''] 1 = None
   \<and> phrase_candidate ''present'' = Some ''Present''
   \<and> extract_location ''what is the weather at present'' = Some ''Present''
   \<and> extract_location ''weather in present'' = Some ''Present''"
  by code_simp

section \<open>Prompt assembly\<close>

lemma join_first_nonempty: "x \<noteq> [] \<Longrightarrow> join sep (x # xs) \<noteq> []"
  by (cases xs) auto

lemma or_else_nonempty: "y \<noteq> [] \<Longrightarrow> or_else x y \<noteq> []"
  by (auto simp: or_else_def split: option.splits)

lemma build_weather_packet_location:
  "build_weather_packet e location days w = (Returned (Some p), w') \<Longrightarrow> pk_location p \<noteq> []"
  by (auto simp: build_weather_packet_def Let_def or_else_nonempty
           split: if_splits prod.splits option.splits result.splits)

lemma format_packet_nonempty: "pk_location p \<noteq> [] \<Longrightarrow> format_packet_for_prompt e p \<noteq> []"
  by (simp add: format_packet_for_prompt_def Let_def join_first_nonempty)

lemma weather_for_turn_cases:
  "fst (weather_for_turn e location w) = (None, None)
   \<or> (\<exists>p. fst (weather_for_turn e location w) = (Some (format_packet_for_prompt e p), Some p)
          \<and> format_packet_for_prompt e p \<noteq> [])"
proof (cases location)
  case None
  then show ?thesis by (simp add: weather_for_turn_def)
next
  case (Some loc)
  show ?thesis
  proof (cases "loc = []")
    case True
    with Some show ?thesis by (simp add: weather_for_turn_def)
  next
    case False
    obtain pk w' where b: "build_weather_packet e loc 5 w = (pk, w')"
      by (cases "build_weather_packet e loc 5 w")
    show ?thesis
    proof (cases pk)
      case Raised
      with b Some False show ?thesis
        by (simp add: weather_for_turn_def get_weather_summary_for_prompt_def)
    next
      case (Returned r)
      show ?thesis
      proof (cases r)
        case None
        with b Returned Some False show ?thesis
          by (simp add: weather_for_turn_def get_weather_summary_for_prompt_def)
      next
        case p: (Some p)
        with b Returned have "pk_location p \<noteq> []" by (auto dest: build_weather_packet_location)
        then have "format_packet_for_prompt e p \<noteq> []" by (rule format_packet_nonempty)
        with b p Returned Some False show ?thesis
          by (simp add: weather_for_turn_def get_weather_summary_for_prompt_def)
      qed
    qed
  qed
qed

text \<open>
  Claim C2. For every history, user message and state of the weather engine, the
  message list of a turn is: the system instruction block; then, exactly when the
  weather step produced a packet, the one-line summary message followed by the fenced
  JSON message of that packet; then the history rows in their order, each with its own
  role and content; then the current user message. So the instruction block is first
  and the user message is last.
\<close>

theorem messages_in_contract_order:
  "fst (turn_messages e json_dumps last_location history user_message w) =
     \<lparr>role = ''system'', content = system_prompt\<rparr>
     # (case snd (fst (weather_for_turn e (resolve_location user_message last_location) w)) of
          None \<Rightarrow> []
        | Some pkt \<Rightarrow>
            [\<lparr>role = ''system'',
              content = ''Weather summary for ''
                          @ show_opt id (resolve_location user_message last_location)
                          @ '': '' @ format_packet_for_prompt e pkt\<rparr>,
             \<lparr>role = ''system'',
              content = ''WEATHER_PACKET_JSON:'' @ nl @ ''```json'' @ nl
                          @ json_dumps pkt @ nl @ ''```''\<rparr>])
     @ map (\<lambda>(m, r). \<lparr>role = r, content = m\<rparr>) history
     @ [\<lparr>role = ''user'', content = user_message\<rparr>]
   \<and> hd (fst (turn_messages e json_dumps last_location history user_message w))
       = \<lparr>role = ''system'', content = system_prompt\<rparr>
   \<and> last (fst (turn_messages e json_dumps last_location history user_message w))
       = \<lparr>role = ''user'', content = user_message\<rparr>"
proof -
  let ?loc = "resolve_location user_message last_location"
  obtain s p w' where wt: "weather_for_turn e ?loc w = ((s, p), w')"
    by (cases "weather_for_turn e ?loc w") auto
  from weather_for_turn_cases[of e ?loc w] wt
  consider "s = None" "p = None"
    | pk where "s = Some (format_packet_for_prompt e pk)" "p = Some pk"
               "format_packet_for_prompt e pk \<noteq> []"
    by auto
  then show ?thesis
  proof cases
    case 1
    with wt show ?thesis by (simp add: turn_messages_def build_messages_def)
  next
    case 2
    with wt show ?thesis by (simp add: turn_messages_def build_messages_def)
  qed
qed

section \<open>The cache tiers\<close>

























lemma example_key: "lower (strip ''Goa'') = ''goa''" "lower (strip '' GOA '') = ''goa''"
  by code_simp+

lemma example_aggregate: "aggregate example_env 5 example_items = Some example_forecast"
  by code_simp

lemma example_aggregate_outage: "aggregate example_outage 5 example_items = Some example_forecast"
  by code_simp


lemma example_outage_fields:
  "owm_key example_outage = Some ''k''"
  "geo_api example_outage q = Response 200 (Some [example_geo])"
  "current_api example_outage la lo = RequestFailed"
  "forecast_api example_outage la lo = Response 200 (Some (Some example_items))"
  "aqi_api example_outage la lo = Response 503 None"
  "fmt4 example_outage = example_fmt4"
  "str_int example_outage 5 = ''5''"
  by (simp_all add: example_outage_def example_env_def)


lemma example_geo_fields:
  "geo_name example_geo = Some ''Goa''" "geo_lat example_geo = Some (Formats 15.3)"
  "geo_lon example_geo = Some (Formats 74.1)" "geo_country example_geo = Some ''IN''"
  "geo_state example_geo = None"
  "\<lparr>geo_name = Some ''Goa'', geo_lat = Some (Formats 15.3), geo_lon = Some (Formats 74.1),
    geo_country = Some ''IN'', geo_state = None\<rparr> = example_geo"
  by (simp_all add: example_geo_def)

lemma example_clock_values:
  "example_clock 0 = 1700000000" "example_clock (Suc 0) = 1700000010"
  "example_clock (Suc (Suc 0)) = 1700000020" "example_clock (Suc (Suc (Suc 0))) = 1700000030"
  "example_clock 4 = 1700000040" "example_clock 5 = 1700000050"
  "example_clock 6 = 1700004000" "example_clock 7 = 1700100000"
  by (simp_all add: example_clock_def)






section \<open>The weather packet\<close>

lemma fresh_None_world: "fst (fresh ttl c w) = None \<Longrightarrow> \<exists>w'. fresh ttl c w = (None, w')"
  by (cases "fresh ttl c w") auto

lemma geocode_fails_absent:
  "failed (geo_api e location) \<Longrightarrow>
   fst (fresh GEO_TTL (geo_cache w (lower (strip location))) w) = None \<Longrightarrow>
   fst (geocode_location e location w) = None"
  by (auto simp: geocode_location_def failed_def Let_def dest!: fresh_None_world
           split: http.splits option.splits)

lemma current_fails_absent:
  "failed (current_api e la lo) \<Longrightarrow>
   fst (fresh CURRENT_TTL (current_cache w (cur_key e la lo)) w) = None \<Longrightarrow>
   fst (fetch_current_weather_by_coord e la lo w) = None"
  by (auto simp: fetch_current_weather_by_coord_def failed_def Let_def dest!: fresh_None_world
           split: http.splits option.splits)

lemma forecast_fails_absent:
  "failed (forecast_api e la lo) \<Longrightarrow>
   fst (fresh FORECAST_TTL (forecast_cache w (fc_key e la lo days)) w) = None \<Longrightarrow>
   fst (fetch_forecast_by_coord e la lo days w) = None"
  by (auto simp: fetch_forecast_by_coord_def failed_def Let_def dest!: fresh_None_world
           split: http.splits option.splits)

lemma aqi_fails_absent:
  "failed (aqi_api e la lo) \<Longrightarrow>
   fst (fresh AQI_TTL (aqi_cache w (aqi_key e la lo)) w) = None \<Longrightarrow>
   fst (fetch_aqi_by_coord e la lo w) = None"
  by (auto simp: fetch_aqi_by_coord_def failed_def Let_def dest!: fresh_None_world
           split: http.splits option.splits)

lemma geocode_needs_key: "geocode_location e location w = (Some g, w1) \<Longrightarrow> \<not> no_key e"
  by (auto simp: geocode_location_def split: if_splits)

lemma call_fetch_formats:
  "\<not> no_key e \<Longrightarrow>
   call_fetch e fetch (Formats la) (Formats lo) w
     = (Returned (fst (fetch la lo w)), snd (fetch la lo w))"
  by (simp add: call_fetch_def split: prod.splits)

lemma call_fetch_raises:
  "\<not> no_key e \<Longrightarrow> lat = Unformattable \<or> lon = Unformattable \<Longrightarrow>
   call_fetch e fetch lat lon w = (Raised, w)"
  by (auto simp: call_fetch_def split: coordinate.splits)

lemma build_without_coordinate:
  "location = [] \<or> fst (geocode_location e location w) = None
   \<or> (\<exists>g. fst (geocode_location e location w) = Some g \<and> (geo_lat g = None \<or> geo_lon g = None))
   \<Longrightarrow> fst (build_weather_packet e location days w) = Returned None"
  by (auto simp: build_weather_packet_def Let_def split: prod.splits option.splits)

lemma build_with_coordinate:
  assumes "location \<noteq> []" "geocode_location e location w = (Some g, w1)"
          "geo_lat g = Some (Formats la)" "geo_lon g = Some (Formats lo)"
  shows "\<exists>p. fst (build_weather_packet e location days w) = Returned (Some p)
           \<and> pk_lat p = Formats la \<and> pk_lon p = Formats lo
           \<and> pk_current p = fst (fetch_current_weather_by_coord e la lo w1)
           \<and> pk_forecast p
               = fst (fetch_forecast_by_coord e la lo days
                        (snd (fetch_current_weather_by_coord e la lo w1)))
           \<and> pk_aqi p
               = fst (fetch_aqi_by_coord e la lo
                        (snd (fetch_forecast_by_coord e la lo days
                                (snd (fetch_current_weather_by_coord e la lo w1)))))"
  using assms geocode_needs_key[OF assms(2)]
  by (simp add: build_weather_packet_def call_fetch_formats Let_def split: prod.splits)

lemma build_raises:
  assumes "location \<noteq> []" "geocode_location e location w = (Some g, w1)"
          "geo_lat g = Some lat" "geo_lon g = Some lon"
          "lat = Unformattable \<or> lon = Unformattable"
  shows "build_weather_packet e location days w = (Raised, w1)"
proof -
  note r = call_fetch_raises[OF geocode_needs_key[OF assms(2)] assms(5)]
  from assms(1-4) show ?thesis by (simp add: build_weather_packet_def r)
qed

lemma build_raises_iff:
  "fst (build_weather_packet e location days w) = Raised
     \<longleftrightarrow> location \<noteq> []
         \<and> (\<exists>g lat lon. fst (geocode_location e location w) = Some g
                \<and> geo_lat g = Some lat \<and> geo_lon g = Some lon
                \<and> (lat = Unformattable \<or> lon = Unformattable))"
proof (cases "location = []")
  case True
  then show ?thesis by (simp add: build_weather_packet_def)
next
  case False
  obtain g w1 where g: "geocode_location e location w = (g, w1)"
    by (cases "geocode_location e location w")
  show ?thesis
  proof (cases g)
    case None
    with g False show ?thesis by (simp add: build_weather_packet_def)
  next
    case (Some gr)
    show ?thesis
    proof (cases "geo_lat gr")
      case None
      with g Some False show ?thesis by (simp add: build_weather_packet_def)
    next
      case lat: (Some lat)
      show ?thesis
      proof (cases "geo_lon gr")
        case None
        with g Some lat False show ?thesis by (simp add: build_weather_packet_def)
      next
        case lon: (Some lon)
        show ?thesis
        proof (cases "lat = Unformattable \<or> lon = Unformattable")
          case True
          from build_raises[OF False g[unfolded Some] lat lon True, where days = days] g Some lat lon True False
          show ?thesis by auto
        next
          case no: False
          then obtain la lo where c: "lat = Formats la" "lon = Formats lo"
            by (cases lat; cases lon) auto
          from build_with_coordinate[OF False g[unfolded Some] lat[unfolded c] lon[unfolded c],
                                     where days = days]
               g Some lat lon c False
          show ?thesis by auto
        qed
      qed
    qed
  qed
qed

text \<open>
  Claim C6, as stated, fails. A geocoder that answers with the latitude as a string
  (\<open>"lat": "15.3"\<close>) gives a coordinate that is not \<open>None\<close>; the first fetch formats it
  into its cache key before its \<open>try\<close> block, and the exception leaves
  \<open>build_weather_packet\<close>. The chat turn catches it and goes on without weather.
\<close>

theorem unformattable_coordinate_raises:
  "fst (build_weather_packet example_quoted ''Goa'' 5 example_world) = Raised
   \<and> fst (weather_for_turn example_quoted (Some ''Goa'') example_world) = (None, None)"
  by (simp add: weather_for_turn_def get_weather_summary_for_prompt_def
        build_weather_packet_def call_fetch_def geocode_location_def example_quoted_def
        example_env_def example_world_def no_key_def fresh_def now_ts_def send_def
        example_geo_def Let_def)

text \<open>
  Claim C6, amended. \<open>build_weather_packet\<close> raises to its caller exactly when the
  geocoder gave both coordinates and one of them is a value the cache-key format
  rejects; with coordinates that are numbers it never raises. It returns nothing when
  the location is empty, geocoding returns nothing, or a coordinate is missing. With
  two numbers it returns a packet whose \<open>current\<close>, \<open>forecast\<close> and \<open>aqi\<close> are whatever
  the three fetches return, one after the other, each on the state the previous one
  left: none of them can prevent the packet. Each of the four fetches returns nothing
  on a failed answer (a failed request, a status other than 200, a body that does not
  decode or has another shape), unless a fresh cache entry serves the call.
\<close>

theorem packet_built_whatever_fetches_fail:
  "(fst (build_weather_packet e location days w) = Raised
      \<longleftrightarrow> location \<noteq> []
          \<and> (\<exists>g lat lon. fst (geocode_location e location w) = Some g
                 \<and> geo_lat g = Some lat \<and> geo_lon g = Some lon
                 \<and> (lat = Unformattable \<or> lon = Unformattable)))
   \<and> (location = [] \<or> fst (geocode_location e location w) = None
      \<or> (\<exists>g. fst (geocode_location e location w) = Some g
              \<and> (geo_lat g = None \<or> geo_lon g = None))
    \<longrightarrow> fst (build_weather_packet e location days w) = Returned None)
   \<and> (location \<noteq> [] \<and> geocode_location e location w = (Some g, w1)
        \<and> geo_lat g = Some (Formats la) \<and> geo_lon g = Some (Formats lo)
    \<longrightarrow> (\<exists>p. fst (build_weather_packet e location days w) = Returned (Some p)
           \<and> pk_lat p = Formats la \<and> pk_lon p = Formats lo
           \<and> pk_current p = fst (fetch_current_weather_by_coord e la lo w1)
           \<and> pk_forecast p
               = fst (fetch_forecast_by_coord e la lo days
                        (snd (fetch_current_weather_by_coord e la lo w1)))
           \<and> pk_aqi p
               = fst (fetch_aqi_by_coord e la lo
                        (snd (fetch_forecast_by_coord e la lo days
                                (snd (fetch_current_weather_by_coord e la lo w1)))))))
   \<and> (failed (geo_api e location)
        \<and> fst (fresh GEO_TTL (geo_cache w (lower (strip location))) w) = None
    \<longrightarrow> fst (geocode_location e location w) = None)
   \<and> (failed (current_api e la lo)
        \<and> fst (fresh CURRENT_TTL (current_cache w (cur_key e la lo)) w) = None
    \<longrightarrow> fst (fetch_current_weather_by_coord e la lo w) = None)
   \<and> (failed (forecast_api e la lo)
        \<and> fst (fresh FORECAST_TTL (forecast_cache w (fc_key e la lo days)) w) = None
    \<longrightarrow> fst (fetch_forecast_by_coord e la lo days w) = None)
   \<and> (failed (aqi_api e la lo)
        \<and> fst (fresh AQI_TTL (aqi_cache w (aqi_key e la lo)) w) = None
    \<longrightarrow> fst (fetch_aqi_by_coord e la lo w) = None)"
proof (intro conjI impI)
  show "fst (build_weather_packet e location days w) = Raised
      \<longleftrightarrow> location \<noteq> []
          \<and> (\<exists>g lat lon. fst (geocode_location e location w) = Some g
                 \<and> geo_lat g = Some lat \<and> geo_lon g = Some lon
                 \<and> (lat = Unformattable \<or> lon = Unformattable))"
    by (rule build_raises_iff)
next
  assume "location = [] \<or> fst (geocode_location e location w) = None
      \<or> (\<exists>g. fst (geocode_location e location w) = Some g
              \<and> (geo_lat g = None \<or> geo_lon g = None))"
  then show "fst (build_weather_packet e location days w) = Returned None"
    by (rule build_without_coordinate)
next
  assume "location \<noteq> [] \<and> geocode_location e location w = (Some g, w1)
        \<and> geo_lat g = Some (Formats la) \<and> geo_lon g = Some (Formats lo)"
  then have "location \<noteq> []" "geocode_location e location w = (Some g, w1)"
            "geo_lat g = Some (Formats la)" "geo_lon g = Some (Formats lo)"
    by simp_all
  then show "\<exists>p. fst (build_weather_packet e location days w) = Returned (Some p)
           \<and> pk_lat p = Formats la \<and> pk_lon p = Formats lo
           \<and> pk_current p = fst (fetch_current_weather_by_coord e la lo w1)
           \<and> pk_forecast p
               = fst (fetch_forecast_by_coord e la lo days
                        (snd (fetch_current_weather_by_coord e la lo w1)))
           \<and> pk_aqi p
               = fst (fetch_aqi_by_coord e la lo
                        (snd (fetch_forecast_by_coord e la lo days
                                (snd (fetch_current_weather_by_coord e la lo w1)))))"
    by (rule build_with_coordinate)
next
  assume "failed (geo_api e location)
        \<and> fst (fresh GEO_TTL (geo_cache w (lower (strip location))) w) = None"
  then show "fst (geocode_location e location w) = None"
    by (simp add: geocode_fails_absent)
next
  assume "failed (current_api e la lo)
        \<and> fst (fresh CURRENT_TTL (current_cache w (cur_key e la lo)) w) = None"
  then show "fst (fetch_current_weather_by_coord e la lo w) = None"
    by (simp add: current_fails_absent)
next
  assume "failed (forecast_api e la lo)
        \<and> fst (fresh FORECAST_TTL (forecast_cache w (fc_key e la lo days)) w) = None"
  then show "fst (fetch_forecast_by_coord e la lo days w) = None"
    by (simp add: forecast_fails_absent)
next
  assume "failed (aqi_api e la lo)
        \<and> fst (fresh AQI_TTL (aqi_cache w (aqi_key e la lo)) w) = None"
  then show "fst (fetch_aqi_by_coord e la lo w) = None"
    by (simp add: aqi_fails_absent)
qed

lemma example_geocode_cold:
  "geocode_location example_outage ''Goa'' example_world
     = (Some example_geo,
        example_world\<lparr>sent := [GeoRequest ''Goa''], ticks := 1,
                      geo_cache := [''goa'' \<mapsto> (example_geo, 1700000000)]\<rparr>)"
  by (simp add: geocode_location_def example_outage_fields example_world_def example_key
        no_key_def fresh_def now_ts_def send_def example_geo_fields example_clock_values Let_def)

text \<open>
  While the current-conditions and air-quality endpoints are down, the packet for Goa
  is built without raising: it has no \<open>current\<close> and no \<open>aqi\<close>, and the forecast of the
  two days.
\<close>

theorem packet_built_whatever_fetches_fail_witness:
  "fst (build_weather_packet example_outage ''Goa'' 5 example_world) \<noteq> Raised
   \<and> (\<exists>p. fst (build_weather_packet example_outage ''Goa'' 5 example_world) = Returned (Some p)
      \<and> pk_current p = None \<and> pk_forecast p = Some example_forecast \<and> pk_aqi p = None)"
proof -
  let ?w1 = "example_world\<lparr>sent := [GeoRequest ''Goa''], ticks := 1,
                           geo_cache := [''goa'' \<mapsto> (example_geo, 1700000000)]\<rparr>"
  have l: "''Goa'' \<noteq> []" by simp
  have c: "fetch_current_weather_by_coord example_outage 15.3 74.1 ?w1
             = (None, ?w1\<lparr>sent := [GeoRequest ''Goa'', CurrentRequest 15.3 74.1]\<rparr>)"
    by (simp add: fetch_current_weather_by_coord_def example_outage_fields example_world_def
          no_key_def fresh_def send_def Let_def)
  have f: "fst (fetch_forecast_by_coord example_outage 15.3 74.1 5
                  (?w1\<lparr>sent := [GeoRequest ''Goa'', CurrentRequest 15.3 74.1]\<rparr>))
             = Some example_forecast"
    by (simp add: fetch_forecast_by_coord_def example_outage_fields example_world_def
          no_key_def fresh_def send_def now_ts_def Let_def example_aggregate_outage)
  have a: "fst (fetch_aqi_by_coord example_outage 15.3 74.1
             (snd (fetch_forecast_by_coord example_outage 15.3 74.1 5
                  (?w1\<lparr>sent := [GeoRequest ''Goa'', CurrentRequest 15.3 74.1]\<rparr>)))) = None"
    by (simp add: fetch_aqi_by_coord_def fetch_forecast_by_coord_def example_outage_fields
          example_world_def no_key_def fresh_def send_def now_ts_def Let_def
          example_aggregate_outage)
  from packet_built_whatever_fetches_fail
         [where location = "''Goa''" and e = example_outage and w = example_world and days = 5
            and g = example_geo and ?w1.0 = ?w1 and la = "15.3" and lo = "74.1",
          THEN conjunct2, THEN conjunct2, THEN conjunct1]
       l example_geocode_cold example_geo_fields(2,3)
  obtain p where p: "fst (build_weather_packet example_outage ''Goa'' 5 example_world)
                       = Returned (Some p)"
      "pk_current p = fst (fetch_current_weather_by_coord example_outage 15.3 74.1 ?w1)"
      "pk_forecast p
               = fst (fetch_forecast_by_coord example_outage 15.3 74.1 5
                        (snd (fetch_current_weather_by_coord example_outage 15.3 74.1 ?w1)))"
      "pk_aqi p
               = fst (fetch_aqi_by_coord example_outage 15.3 74.1
                        (snd (fetch_forecast_by_coord example_outage 15.3 74.1 5
                                (snd (fetch_current_weather_by_coord example_outage 15.3 74.1 ?w1)))))"
    by blast
  from p c f a show ?thesis by simp
qed

section \<open>Forecast aggregation: the daily figures\<close>

lemma min_from_fold: "min_from b xs = fold min xs b"
  by (induction xs arbitrary: b) (auto simp: min_def)

lemma max_from_fold: "max_from b xs = fold max xs b"
  by (induction xs arbitrary: b) (auto simp: max_def)

lemma py_min_Min: "py_min xs = (if xs = [] then None else Some (Min (set xs)))"
proof (cases xs)
  case Nil
  then show ?thesis by (simp add: py_min_def)
next
  case (Cons a list)
  with Min.set_eq_fold[of a list] show ?thesis by (simp add: py_min_def min_from_fold)
qed

lemma py_max_Max: "py_max xs = (if xs = [] then None else Some (Max (set xs)))"
proof (cases xs)
  case Nil
  then show ?thesis by (simp add: py_max_def)
next
  case (Cons a list)
  with Max.set_eq_fold[of a list] show ?thesis by (simp add: py_max_def max_from_fold)
qed

lemma mean_eq: "mean xs = (if xs = [] then None else Some (sum_list xs / real (length xs)))"
  by (simp add: mean_def)

lemma those_map_Some:
  "those (map f xs) = Some ys \<longleftrightarrow> list_all2 (\<lambda>x y. f x = Some y) xs ys"
proof (induction xs arbitrary: ys)
  case Nil
  then show ?case by auto
next
  case (Cons x xs)
  show ?case
  proof (cases "f x")
    case None
    then show ?thesis by (auto simp: list_all2_Cons1)
  next
    case (Some y)
    with Cons show ?thesis by (cases "those (map f xs)") (auto simp: list_all2_Cons1)
  qed
qed

lemma add_sample_keys:
  "map fst (add_sample daily day it descr) =
     (if day \<in> set (map fst daily) then map fst daily else map fst daily @ [day])"
  by (auto simp: add_sample_def Let_def case_prod_unfold)

lemma upd_pair:
  "(\<lambda>(k, v). if k = day then (k, f v) else (k, v)) = (\<lambda>(k, v). (k, if k = day then f v else v))"
  by (auto simp: fun_eq_iff)

lemma map_of_upd:
  "map_of (map (\<lambda>(k, v). if k = day then (k, f v) else (k, v)) xs) k' =
     (if k' = day then map_option f (map_of xs day) else map_of xs k')"
  unfolding upd_pair by (induction xs) auto

lemma map_of_upd_present:
  "map_of xs day = Some s \<Longrightarrow>
   map_of (map (\<lambda>(k, v). if k = day then (k, f v) else (k, v)) xs) k' =
     (if k' = day then Some (f s) else map_of xs k')"
  by (simp add: map_of_upd)

lemma map_of_upd_new:
  "map_of xs day = None \<Longrightarrow>
   map_of (map (\<lambda>(k, v). if k = day then (k, f v) else (k, v)) (xs @ [(day, z)])) k' =
     (if k' = day then Some (f z) else map_of xs k')"
  by (auto simp: map_of_upd map_add_def split: option.splits)

lemma add_sample_lookup:
  "map_of (add_sample daily day it descr) k =
     (if k = day
      then Some (let v = (case map_of daily day of None \<Rightarrow> empty_slot | Some s \<Rightarrow> s) in
                 \<lparr>temps = temps v @ [main_get temp (it_main it)],
                  desc = desc v @ [descr],
                  winds = winds v @ [sub_get (it_wind it)],
                  hum = hum v @ [main_get humidity (it_main it)]\<rparr>)
      else map_of daily k)"
proof (cases "map_of daily day")
  case None
  then have n: "day \<notin> set (map fst daily)" by (simp add: map_of_eq_None_iff)
  from map_of_upd_new[OF None, of "\<lambda>v. \<lparr>temps = temps v @ [main_get temp (it_main it)],
                  desc = desc v @ [descr],
                  winds = winds v @ [sub_get (it_wind it)],
                  hum = hum v @ [main_get humidity (it_main it)]\<rparr>" empty_slot k] n None
  show ?thesis by (simp add: add_sample_def Let_def)
next
  case (Some s)
  then have n: "day \<in> set (map fst daily)"
    by (metis map_of_eq_None_iff option.distinct(1) set_map)
  from map_of_upd_present[OF Some, of "\<lambda>v. \<lparr>temps = temps v @ [main_get temp (it_main it)],
                  desc = desc v @ [descr],
                  winds = winds v @ [sub_get (it_wind it)],
                  hum = hum v @ [main_get humidity (it_main it)]\<rparr>" k] n Some
  show ?thesis by (simp add: add_sample_def Let_def)
qed

lemma group_by_day_slots:
  assumes "group_by_day e items daily = Some daily'" "distinct (map fst daily)"
  shows "distinct (map fst daily')
       \<and> set (map fst daily')
           = set (map fst daily) \<union> {d. \<exists>it \<in> set items. day_str e (dt it) = Some d}
       \<and> (\<forall>k s'. map_of daily' k = Some s' \<longrightarrow>
            (let s = (case map_of daily k of None \<Rightarrow> empty_slot | Some s \<Rightarrow> s);
                 its = filter (\<lambda>it. day_str e (dt it) = Some k) items
             in temps s' = temps s @ map (\<lambda>it. main_get temp (it_main it)) its
              \<and> desc s' = desc s @ map item_description its
              \<and> winds s' = winds s @ map (\<lambda>it. sub_get (it_wind it)) its
              \<and> hum s' = hum s @ map (\<lambda>it. main_get humidity (it_main it)) its))"
  using assms
proof (induction items arbitrary: daily)
  case Nil
  then show ?case by (auto simp: Let_def)
next
  case (Cons it items)
  from Cons.prems(1) obtain day descr where
    d: "day_str e (dt it) = Some day" and w: "first_description (it_weather it) = Some descr"
    and g: "group_by_day e items (add_sample daily day it descr) = Some daily'"
    by (auto split: option.splits)
  from w have descr: "descr = item_description it"
    by (auto simp: first_description_def item_description_def split: option.splits list.splits)
  have dist: "distinct (map fst (add_sample daily day it descr))"
    using Cons.prems(2) by (simp add: add_sample_keys)
  note IH = Cons.IH[OF g dist]
  have keys: "set (map fst (add_sample daily day it descr)) = insert day (set (map fst daily))"
    by (auto simp: add_sample_keys)
  show ?case
  proof (intro conjI allI impI)
    show "distinct (map fst daily')" using IH by simp
    show "set (map fst daily')
           = set (map fst daily) \<union> {d. \<exists>it \<in> set (it # items). day_str e (dt it) = Some d}"
      using IH keys d by auto
  next
    fix k s'
    assume m: "map_of daily' k = Some s'"
    from IH m have
      *: "let s = (case map_of (add_sample daily day it descr) k of
                     None \<Rightarrow> empty_slot | Some s \<Rightarrow> s);
              its = filter (\<lambda>it. day_str e (dt it) = Some k) items
          in temps s' = temps s @ map (\<lambda>it. main_get temp (it_main it)) its
           \<and> desc s' = desc s @ map item_description its
           \<and> winds s' = winds s @ map (\<lambda>it. sub_get (it_wind it)) its
           \<and> hum s' = hum s @ map (\<lambda>it. main_get humidity (it_main it)) its"
      by blast
    show "let s = (case map_of daily k of None \<Rightarrow> empty_slot | Some s \<Rightarrow> s);
              its = filter (\<lambda>it. day_str e (dt it) = Some k) (it # items)
          in temps s' = temps s @ map (\<lambda>it. main_get temp (it_main it)) its
           \<and> desc s' = desc s @ map item_description its
           \<and> winds s' = winds s @ map (\<lambda>it. sub_get (it_wind it)) its
           \<and> hum s' = hum s @ map (\<lambda>it. main_get humidity (it_main it)) its"
      using * d descr by (cases "k = day") (simp_all add: add_sample_lookup Let_def)
  qed
qed

lemma set_not_none: "set (not_none xs) = {v. Some v \<in> set xs}"
  by (induction xs) (auto simp: not_none_def split: option.splits)

lemma summarise_Some:
  "summarise e day s = Some r \<Longrightarrow>
     date r = day \<and> temp_min_c r = py_min (not_none (temps s))
     \<and> temp_max_c r = py_max (not_none (temps s))
     \<and> temp_avg_c r = mean (not_none (temps s))
     \<and> wind_avg_m_s r = mean (not_none (winds s))
     \<and> humidity_avg r = mean (not_none (hum s))
     \<and> most_common e (desc s) = Some (common_description r)"
  by (auto simp: summarise_def Let_def split: option.splits)

lemma group_by_day_keys:
  assumes "group_by_day e items [] = Some daily"
  shows "sort (map fst daily) = days_of e items"
proof -
  from group_by_day_slots[OF assms] have d: "distinct (map fst daily)"
    and s: "set (map fst daily) = {d. \<exists>it \<in> set items. day_str e (dt it) = Some d}"
    by simp_all
  have "set (map fst daily) = set (not_none (map (\<lambda>it. day_str e (dt it)) items))"
    unfolding s set_not_none by force
  then have "sorted_list_of_set (set (map fst daily))
              = sorted_list_of_set (set (not_none (map (\<lambda>it. day_str e (dt it)) items)))"
    by simp
  then show ?thesis
    using d by (simp add: sorted_list_of_set_sort_remdups days_of_def distinct_remdups_id del: set_map)
qed

lemma aggregate_days:
  assumes "aggregate e days items = Some result"
  shows "\<exists>daily. group_by_day e items [] = Some daily
           \<and> list_all2 (\<lambda>day r. \<exists>s. map_of daily day = Some s \<and> summarise e day s = Some r)
                (slice_to days (days_of e items)) result"
proof -
  from assms obtain daily where g: "group_by_day e items [] = Some daily"
    and t: "those (map (\<lambda>day. case map_of daily day of None \<Rightarrow> None
                             | Some s \<Rightarrow> summarise e day s)
                     (slice_to days (sort (map fst daily)))) = Some result"
    by (auto simp: aggregate_def split: option.splits)
  from t have "list_all2 (\<lambda>day r. (case map_of daily day of None \<Rightarrow> None
                             | Some s \<Rightarrow> summarise e day s) = Some r)
                 (slice_to days (days_of e items)) result"
    by (simp add: those_map_Some group_by_day_keys[OF g])
  then have "list_all2 (\<lambda>day r. \<exists>s. map_of daily day = Some s \<and> summarise e day s = Some r)
                (slice_to days (days_of e items)) result"
    by (rule list_all2_mono) (auto split: option.splits)
  with g show ?thesis by blast
qed

lemma aggregate_day:
  assumes "aggregate e days items = Some result" "r \<in> set result"
  shows "\<exists>s. summarise e (date r) s = Some r
           \<and> day_items e (date r) items \<noteq> []
           \<and> temps s = map (\<lambda>it. main_get temp (it_main it)) (day_items e (date r) items)
           \<and> desc s = map item_description (day_items e (date r) items)
           \<and> winds s = map (\<lambda>it. sub_get (it_wind it)) (day_items e (date r) items)
           \<and> hum s = map (\<lambda>it. main_get humidity (it_main it)) (day_items e (date r) items)"
proof -
  from aggregate_days[OF assms(1)] obtain daily where g: "group_by_day e items [] = Some daily"
    and l: "list_all2 (\<lambda>day r. \<exists>s. map_of daily day = Some s \<and> summarise e day s = Some r)
                (slice_to days (days_of e items)) result"
    by blast
  from l assms(2) obtain day s where m: "map_of daily day = Some s"
    and su: "summarise e day s = Some r"
    by (auto simp: list_all2_conv_all_nth in_set_conv_nth)
  from summarise_Some[OF su] have dr: "date r = day" by simp
  from m have "day \<in> set (map fst daily)"
    by (metis map_of_eq_None_iff option.distinct(1) set_map)
  with group_by_day_slots[OF g] have "\<exists>it \<in> set items. day_str e (dt it) = Some day"
    by auto
  then have ne: "day_items e day items \<noteq> []"
    by (auto simp: day_items_def filter_empty_conv)
  from group_by_day_slots[OF g] m
  have "temps s = map (\<lambda>it. main_get temp (it_main it)) (day_items e day items)
      \<and> desc s = map item_description (day_items e day items)
      \<and> winds s = map (\<lambda>it. sub_get (it_wind it)) (day_items e day items)
      \<and> hum s = map (\<lambda>it. main_get humidity (it_main it)) (day_items e day items)"
    by (simp add: Let_def day_items_def empty_slot_def)
  with su ne dr show ?thesis by blast
qed

lemma aggregate_dates:
  assumes "aggregate e days items = Some result"
  shows "map date result = slice_to days (days_of e items)"
proof -
  from aggregate_days[OF assms] obtain daily where
    l: "list_all2 (\<lambda>day r. \<exists>s. map_of daily day = Some s \<and> summarise e day s = Some r)
                (slice_to days (days_of e items)) result"
    by blast
  then have "list_all2 (\<lambda>day r. date r = day) (slice_to days (days_of e items)) result"
    by (rule list_all2_mono) (auto dest: summarise_Some)
  then show ?thesis
    by (induction rule: list_all2_induct) auto
qed

text \<open>
  Claim C5. Whenever the aggregation returns a list of days: the dates of the entries
  are the distinct UTC days of the samples in ascending order, cut by the slice
  \<open>[:days]\<close> (the first \<open>days\<close> of them when \<open>days\<close> is not negative); and for every entry,
  over the samples of its day that have a temperature, \<open>temp_min_c\<close> is the minimum,
  \<open>temp_max_c\<close> the maximum and \<open>temp_avg_c\<close> the sum divided by the count, all three
  absent when no sample of the day has a temperature; likewise \<open>wind_avg_m_s\<close> and
  \<open>humidity_avg\<close> are the means of the wind speeds and humidities present, absent when
  there is none.
\<close>

theorem daily_aggregates:
  assumes "aggregate e days items = Some result"
  shows "map date result = slice_to days (days_of e items)
       \<and> (0 \<le> days \<longrightarrow> map date result = take (nat days) (days_of e items))
       \<and> sorted (map date result) \<and> distinct (map date result)
       \<and> (\<forall>r \<in> set result.
            let ts = not_none (map (\<lambda>it. main_get temp (it_main it)) (day_items e (date r) items));
                ws = not_none (map (\<lambda>it. sub_get (it_wind it)) (day_items e (date r) items));
                hs = not_none (map (\<lambda>it. main_get humidity (it_main it)) (day_items e (date r) items))
            in temp_min_c r = (if ts = [] then None else Some (Min (set ts)))
             \<and> temp_max_c r = (if ts = [] then None else Some (Max (set ts)))
             \<and> temp_avg_c r = (if ts = [] then None else Some (sum_list ts / real (length ts)))
             \<and> wind_avg_m_s r = (if ws = [] then None else Some (sum_list ws / real (length ws)))
             \<and> humidity_avg r = (if hs = [] then None else Some (sum_list hs / real (length hs))))"
proof (intro conjI ballI)
  show d: "map date result = slice_to days (days_of e items)"
    by (rule aggregate_dates[OF assms])
  show "0 \<le> days \<longrightarrow> map date result = take (nat days) (days_of e items)"
    by (simp add: d slice_to_def)
  show "sorted (map date result)"
    unfolding d by (simp add: slice_to_def days_of_def sorted_wrt_take)
  show "distinct (map date result)"
    unfolding d by (simp add: slice_to_def days_of_def distinct_take)
next
  fix r assume "r \<in> set result"
  from aggregate_day[OF assms this] obtain s where su: "summarise e (date r) s = Some r"
    and t: "temps s = map (\<lambda>it. main_get temp (it_main it)) (day_items e (date r) items)"
    and w: "winds s = map (\<lambda>it. sub_get (it_wind it)) (day_items e (date r) items)"
    and h: "hum s = map (\<lambda>it. main_get humidity (it_main it)) (day_items e (date r) items)"
    by blast
  from summarise_Some[OF su] t w h
  show "let ts = not_none (map (\<lambda>it. main_get temp (it_main it)) (day_items e (date r) items));
                ws = not_none (map (\<lambda>it. sub_get (it_wind it)) (day_items e (date r) items));
                hs = not_none (map (\<lambda>it. main_get humidity (it_main it)) (day_items e (date r) items))
            in temp_min_c r = (if ts = [] then None else Some (Min (set ts)))
             \<and> temp_max_c r = (if ts = [] then None else Some (Max (set ts)))
             \<and> temp_avg_c r = (if ts = [] then None else Some (sum_list ts / real (length ts)))
             \<and> wind_avg_m_s r = (if ws = [] then None else Some (sum_list ws / real (length ws)))
             \<and> humidity_avg r = (if hs = [] then None else Some (sum_list hs / real (length hs)))"
    by (simp add: Let_def py_min_Min py_max_Max mean_eq)
qed

lemma example_day_values:
  "date (example_forecast ! 0) = ''2023-11-14''" "date (example_forecast ! 1) = ''2023-11-15''"
  "example_forecast ! 0 \<in> set example_forecast" "example_forecast ! 1 \<in> set example_forecast"
  by (simp_all add: example_forecast_def)

lemma example_day_temperatures:
  "not_none (map (\<lambda>it. main_get temp (it_main it))
      (day_items example_env ''2023-11-15'' example_items)) = [20, 25, 30]"
  "not_none (map (\<lambda>it. main_get temp (it_main it))
      (day_items example_env ''2023-11-14'' example_items)) = []"
  "days_of example_env example_items = [''2023-11-14'', ''2023-11-15'']"
  by code_simp+

text \<open>
  The example: the day with the samples 20, 25 and 30 reports 20, 30 and 25; the day
  whose only sample has no temperature reports none of the three; the earlier day comes
  first although its sample is listed last.
\<close>

theorem daily_aggregates_witness:
  "aggregate example_env 5 example_items = Some example_forecast
   \<and> map date example_forecast = [''2023-11-14'', ''2023-11-15'']
   \<and> temp_min_c (example_forecast ! 1) = Some 20
   \<and> temp_max_c (example_forecast ! 1) = Some 30
   \<and> temp_avg_c (example_forecast ! 1) = Some 25
   \<and> temp_min_c (example_forecast ! 0) = None
   \<and> temp_max_c (example_forecast ! 0) = None
   \<and> temp_avg_c (example_forecast ! 0) = None"
proof -
  note t = daily_aggregates[OF example_aggregate]
  from t have "map date example_forecast = slice_to 5 (days_of example_env example_items)"
    by blast
  then have d: "map date example_forecast = [''2023-11-14'', ''2023-11-15'']"
    by (simp add: example_day_temperatures slice_to_def)
  from t have a: "\<forall>r \<in> set example_forecast.
      let ts = not_none (map (\<lambda>it. main_get temp (it_main it))
                 (day_items example_env (date r) example_items))
      in temp_min_c r = (if ts = [] then None else Some (Min (set ts)))
       \<and> temp_max_c r = (if ts = [] then None else Some (Max (set ts)))
       \<and> temp_avg_c r = (if ts = [] then None else Some (sum_list ts / real (length ts)))"
    by (simp add: Let_def)
  have 1: "temp_min_c (example_forecast ! 1) = Some 20
         \<and> temp_max_c (example_forecast ! 1) = Some 30
         \<and> temp_avg_c (example_forecast ! 1) = Some 25"
    using a[rule_format, OF example_day_values(4)]
    unfolding Let_def example_day_values(2) example_day_temperatures by simp
  have 0: "temp_min_c (example_forecast ! 0) = None
         \<and> temp_max_c (example_forecast ! 0) = None
         \<and> temp_avg_c (example_forecast ! 0) = None"
    using a[rule_format, OF example_day_values(3)]
    unfolding Let_def example_day_values(1) example_day_temperatures by simp
  from example_aggregate d 1 0 show ?thesis by simp
qed


section \<open>Forecast aggregation: the common description\<close>

lemma max_key_from_decomp:
  "\<exists>pre post. b # xs = pre @ max_key_from key b xs # post
      \<and> (\<forall>x \<in> set pre. key x < key (max_key_from key b xs))
      \<and> (\<forall>x \<in> set post. key x \<le> key (max_key_from key b xs))"
proof (induction xs arbitrary: b)
  case Nil
  show ?case by (intro exI[of _ "[]"]) simp
next
  case (Cons x xs)
  define b' where "b' = (if key x > key b then x else b)"
  define m where "m = max_key_from key b' xs"
  have m: "max_key_from key b (x # xs) = m" by (simp add: m_def b'_def)
  from Cons.IH[of b'] obtain pre post where
    d: "b' # xs = pre @ m # post" and lt: "\<forall>x \<in> set pre. key x < key m"
    and le: "\<forall>x \<in> set post. key x \<le> key m"
    unfolding m_def by blast
  show ?case unfolding m
  proof (cases "key x > key b")
    case True
    then have b': "b' = x" by (simp add: b'_def)
    have "key x \<le> key m"
    proof (cases pre)
      case Nil
      with d b' show ?thesis by simp
    next
      case (Cons p ps)
      with d b' lt show ?thesis by auto
    qed
    with True have "key b < key m" by simp
    with d b' lt le have "b # x # xs = (b # pre) @ m # post
        \<and> (\<forall>x \<in> set (b # pre). key x < key m) \<and> (\<forall>x \<in> set post. key x \<le> key m)"
      by simp
    then show "\<exists>pre post. b # x # xs = pre @ m # post
        \<and> (\<forall>x \<in> set pre. key x < key m) \<and> (\<forall>x \<in> set post. key x \<le> key m)"
      by blast
  next
    case False
    then have b': "b' = b" by (simp add: b'_def)
    show "\<exists>pre post. b # x # xs = pre @ m # post
        \<and> (\<forall>x \<in> set pre. key x < key m) \<and> (\<forall>x \<in> set post. key x \<le> key m)"
    proof (cases pre)
      case Nil
      with d b' have "m = b" "post = xs" by simp_all
      with False le have "b # x # xs = [] @ m # (x # post)
          \<and> (\<forall>x \<in> set []. key x < key m) \<and> (\<forall>y \<in> set (x # post). key y \<le> key m)"
        by auto
      then show ?thesis by blast
    next
      case (Cons p ps)
      with d b' have e: "p = b" "xs = ps @ m # post" by simp_all
      with lt Cons False have "key b < key m" "key x < key m" by auto
      with e lt Cons le have "b # x # xs = (b # x # ps) @ m # post
          \<and> (\<forall>y \<in> set (b # x # ps). key y < key m) \<and> (\<forall>y \<in> set post. key y \<le> key m)"
        by auto
      then show ?thesis by blast
    qed
  qed
qed

lemma find_after_failures:
  "\<forall>x \<in> set pre. \<not> P x \<Longrightarrow> P m \<Longrightarrow> find P (pre @ m # post) = Some m"
  by (induction pre) auto

lemma max_key_from_first:
  assumes "set (b # xs) = A"
  shows "find (\<lambda>x. \<forall>y \<in> A. key y \<le> key x) (b # xs) = Some (max_key_from key b xs)"
proof -
  let ?m = "max_key_from key b xs"
  from max_key_from_decomp[of b xs key] obtain pre post where
    d: "b # xs = pre @ ?m # post" and lt: "\<forall>x \<in> set pre. key x < key ?m"
    and le: "\<forall>x \<in> set post. key x \<le> key ?m"
    by blast
  from d have "set (b # xs) = set (pre @ ?m # post)" by simp
  with assms have A: "A = set pre \<union> {?m} \<union> set post" by auto
  have P: "\<forall>y \<in> A. key y \<le> key ?m"
    unfolding A using lt le by (auto simp: less_imp_le)
  have N: "\<forall>x \<in> set pre. \<not> (\<forall>y \<in> A. key y \<le> key x)"
    unfolding A using lt by (auto simp: not_le)
  from find_after_failures[of pre "\<lambda>x. \<forall>y \<in> A. key y \<le> key x" ?m post, OF N P] d
  show ?thesis by simp
qed

lemma spec_mode_first:
  "ds \<noteq> [] \<Longrightarrow>
   spec_mode ds = find (\<lambda>d. \<forall>d' \<in> set ds. count_list ds d' \<le> count_list ds d) ds"
proof (cases ds)
  case Nil
  assume "ds \<noteq> []"
  with Nil show ?thesis by simp
next
  case (Cons x xs)
  from max_key_from_first[of x xs "set ds" "count_list ds"] Cons
  show ?thesis by (simp add: spec_mode_def del: find.simps)
qed







end
